theory Spec2Isabelle
  imports Complex_Main "HOL-Library.Word"
begin

section \<open>The JavaScript values the advice generator works on\<close>

text \<open>
  The program under study is the function \<^verbatim>\<open>buildMockAdvice\<close> of \<^verbatim>\<open>src/index.js\<close>
  (lines 24 to 67). Its arguments come from a parsed JSON request body, so a value is
  \<^verbatim>\<open>undefined\<close> (an absent property) or one of the six JSON shapes.

  Strings are sequences of UTF-16 code units, which is what \<^verbatim>\<open>slice\<close> and
  \<^verbatim>\<open>length\<close> count. Numbers are the values of IEEE binary64: \<^verbatim>\<open>NaN\<close>, the two
  infinities and the finite values. A finite value is written \<open>Fin x\<close> with the real
  \<open>x\<close> it denotes; only reals that binary64 can represent occur (\<open>is_binary64\<close>
  below), since every number enters through \<open>binary64\<close> (a literal, a parsed string)
  or through an arithmetic operation, which rounds its exact result the same way, and a
  number of the request body has been read by \<^verbatim>\<open>JSON.parse\<close> likewise. The one thing left
  out is the sign of zero: \<^verbatim>\<open>-0\<close> and \<^verbatim>\<open>+0\<close> are equal, both falsy, both printed as
  \<^verbatim>\<open>0\<close>, and the function never divides, so no output can tell them apart.
\<close>

type_synonym jsstring = "16 word list"

definition u16 :: "string \<Rightarrow> jsstring" where
  \<comment> \<open>an ASCII literal as code units\<close>
  "u16 s = map of_char s"

datatype jsnum = Fin real | NaN | PosInf | NegInf

datatype jsval =
    JUndefined
  | JNull
  | JBoolean bool
  | JNumber jsnum
  | JString jsstring
  | JArray "jsval list"
  | JObject "(jsstring \<times> jsval) list"
    \<comment> \<open>own properties of a plain object; the first binding of a key is the property\<close>

datatype error = TypeError

definition and_then :: "error + 'a \<Rightarrow> ('a \<Rightarrow> error + 'b) \<Rightarrow> error + 'b" where
  \<comment> \<open>sequencing: a thrown exception skips the rest\<close>
  "and_then r f = (case r of Inl e \<Rightarrow> Inl e | Inr x \<Rightarrow> f x)"

subsection \<open>Rounding to binary64\<close>

text \<open>
  Round to nearest, ties to even, with 53 significant bits, exponents from -1022 to
  1023, gradual underflow below and overflow to an infinity above. For \<open>x\<close> other
  than zero the spacing of the representable numbers around \<open>x\<close> is
  \<open>2 ^ (e - 52)\<close>, where \<open>2 ^ e \<le> \<bar>x\<bar> < 2 ^ (e + 1)\<close> and \<open>e\<close> is not taken below
  -1022.
\<close>

fun bit_length :: "nat \<Rightarrow> nat" where
  "bit_length n = (if n = 0 then 0 else Suc (bit_length (n div 2)))"

declare bit_length.simps [simp del]

definition pow2 :: "int \<Rightarrow> real" where
  "pow2 e = (if 0 \<le> e then 2 ^ nat e else 1 / 2 ^ nat (- e))"

definition binary_exponent :: "real \<Rightarrow> int" where
  \<comment> \<open>for \<open>0 < x\<close>, the \<open>e\<close> with \<open>2 ^ e \<le> x < 2 ^ (e + 1)\<close>\<close>
  "binary_exponent x =
     (if 1 \<le> x then int (bit_length (nat \<lfloor>x\<rfloor>)) - 1
      else - int (bit_length (nat (\<lceil>1 / x\<rceil> - 1))))"

definition round_half_even :: "real \<Rightarrow> int" where
  "round_half_even y =
     (let f = \<lfloor>y\<rfloor>; r = y - of_int f
      in if r < 1 / 2 then f else if 1 / 2 < r then f + 1 else if even f then f else f + 1)"

definition round64 :: "real \<Rightarrow> real" where
  \<comment> \<open>the nearest multiple of the spacing; may reach \<open>2 ^ 1024\<close>\<close>
  "round64 x =
     (if x = 0 then 0
      else (let e = max (binary_exponent \<bar>x\<bar>) (- 1022); q = pow2 (e - 52)
            in of_int (round_half_even (x / q)) * q))"

definition binary64 :: "real \<Rightarrow> jsnum" where
  \<comment> \<open>the Number value for the real \<open>x\<close>\<close>
  "binary64 x =
     (let y = round64 x
      in if 2 ^ 1024 \<le> y then PosInf else if y \<le> - (2 ^ 1024) then NegInf else Fin y)"

definition is_binary64 :: "real \<Rightarrow> bool" where
  \<comment> \<open>the reals that are finite Number values\<close>
  "is_binary64 x \<longleftrightarrow> binary64 x = Fin x"

subsection \<open>Arithmetic, comparison and the \<^verbatim>\<open>Math\<close> functions\<close>

fun js_add :: "jsnum \<Rightarrow> jsnum \<Rightarrow> jsnum" where
  "js_add (Fin a) (Fin b) = binary64 (a + b)"
| "js_add NaN y = NaN"
| "js_add x NaN = NaN"
| "js_add PosInf NegInf = NaN"
| "js_add NegInf PosInf = NaN"
| "js_add PosInf y = PosInf"
| "js_add NegInf y = NegInf"
| "js_add (Fin a) y = y"

fun js_neg :: "jsnum \<Rightarrow> jsnum" where
  "js_neg (Fin a) = Fin (- a)"
| "js_neg NaN = NaN"
| "js_neg PosInf = NegInf"
| "js_neg NegInf = PosInf"

definition js_sub :: "jsnum \<Rightarrow> jsnum \<Rightarrow> jsnum" where
  "js_sub x y = js_add x (js_neg y)"

fun js_sgn :: "jsnum \<Rightarrow> int" where
  "js_sgn (Fin a) = (if a < 0 then -1 else if a = 0 then 0 else 1)"
| "js_sgn PosInf = 1"
| "js_sgn NegInf = -1"
| "js_sgn NaN = 0"

fun js_mul :: "jsnum \<Rightarrow> jsnum \<Rightarrow> jsnum" where
  "js_mul (Fin a) (Fin b) = binary64 (a * b)"
| "js_mul NaN y = NaN"
| "js_mul x NaN = NaN"
| "js_mul x y =
     (if js_sgn x * js_sgn y = 0 then NaN
      else if js_sgn x * js_sgn y < 0 then NegInf else PosInf)"

fun js_less :: "jsnum \<Rightarrow> jsnum \<Rightarrow> bool" where
  \<comment> \<open>\<^verbatim>\<open>x < y\<close>; every comparison with \<^verbatim>\<open>NaN\<close> is false\<close>
  "js_less (Fin a) (Fin b) = (a < b)"
| "js_less NaN y = False"
| "js_less x NaN = False"
| "js_less x NegInf = False"
| "js_less PosInf y = False"
| "js_less NegInf y = True"
| "js_less (Fin a) PosInf = True"

definition js_gt :: "jsnum \<Rightarrow> jsnum \<Rightarrow> bool" where
  \<comment> \<open>\<^verbatim>\<open>x > y\<close>\<close>
  "js_gt x y = js_less y x"

definition Math_max :: "jsnum \<Rightarrow> jsnum \<Rightarrow> jsnum" where
  "Math_max x y = (if x = NaN \<or> y = NaN then NaN else if js_less x y then y else x)"

definition Math_min :: "jsnum \<Rightarrow> jsnum \<Rightarrow> jsnum" where
  "Math_min x y = (if x = NaN \<or> y = NaN then NaN else if js_less y x then y else x)"

fun Math_round :: "jsnum \<Rightarrow> jsnum" where
  \<comment> \<open>the nearest integer, a tie going towards \<^verbatim>\<open>+Infinity\<close>; it is representable, since
      a binary64 value from \<open>2 ^ 52\<close> on is an integer itself\<close>
  "Math_round (Fin a) = Fin (of_int \<lfloor>a + 1 / 2\<rfloor>)"
| "Math_round x = x"

fun truthy_num :: "jsnum \<Rightarrow> bool" where
  "truthy_num (Fin a) = (a \<noteq> 0)"
| "truthy_num NaN = False"
| "truthy_num x = True"

subsection \<open>Numbers to strings\<close>

text \<open>
  \<^verbatim>\<open>Number::toString\<close> of ECMAScript, in radix 10: for a positive finite \<open>x\<close> take
  integers \<open>n\<close>, \<open>k\<close>, \<open>s\<close> with \<open>10 ^ (k - 1) \<le> s < 10 ^ k\<close> such that
  \<open>s * 10 ^ (n - k)\<close> rounds to \<open>x\<close>, with \<open>k\<close> as small as possible and then \<open>s\<close>
  as close to \<open>x\<close> as possible; print \<open>s\<close> in positional notation when
  \<open>-5 \<le> n \<le> 21\<close> and in exponent notation otherwise. These are the fewest digits
  that read back as \<open>x\<close>; 17 always suffice. With \<open>k\<close> digits the only candidates
  are the two integers next to \<open>x * 10 ^ (k - n)\<close>, for the \<open>n\<close> with
  \<open>10 ^ (n - 1) \<le> x < 10 ^ n\<close>.
\<close>

fun digits_of :: "nat \<Rightarrow> jsstring" where
  "digits_of n =
     (if n < 10 then [of_nat (48 + n)]
      else digits_of (n div 10) @ [of_nat (48 + n mod 10)])"

declare digits_of.simps [simp del]

definition pow10 :: "int \<Rightarrow> real" where
  "pow10 e = (if 0 \<le> e then 10 ^ nat e else 1 / 10 ^ nat (- e))"

definition decimal_exponent :: "real \<Rightarrow> int" where
  \<comment> \<open>for \<open>0 < x\<close>, the \<open>n\<close> with \<open>10 ^ (n - 1) \<le> x < 10 ^ n\<close>\<close>
  "decimal_exponent x =
     (if 1 \<le> x then int (length (digits_of (nat \<lfloor>x\<rfloor>)))
      else 1 - int (length (digits_of (nat (\<lceil>1 / x\<rceil> - 1)))))"

fun strip_zeros :: "nat \<Rightarrow> nat" where
  "strip_zeros m = (if m \<noteq> 0 \<and> m mod 10 = 0 then strip_zeros (m div 10) else m)"

declare strip_zeros.simps [simp del]

definition reads_back :: "real \<Rightarrow> nat \<Rightarrow> int \<Rightarrow> bool" where
  "reads_back x s e \<longleftrightarrow> binary64 (real s * pow10 e) = Fin x"

definition candidate :: "real \<Rightarrow> int \<Rightarrow> nat \<Rightarrow> nat option" where
  \<comment> \<open>the \<open>s\<close> of \<open>k\<close> digits for \<open>x\<close>, if there is one\<close>
  "candidate x n k =
     (let y = x * pow10 (int k - n);
          lo = nat \<lfloor>y\<rfloor>;
          hi = nat \<lceil>y\<rceil>;
          lo_ok = reads_back x lo (n - int k);
          hi_ok = reads_back x hi (n - int k)
      in if lo_ok \<and> hi_ok then
           Some (if y - real lo < real hi - y then lo
                 else if real hi - y < y - real lo then hi
                 else if even lo then lo else hi)
         else if lo_ok then Some lo
         else if hi_ok then Some hi
         else None)"

fun first_candidate :: "real \<Rightarrow> int \<Rightarrow> nat list \<Rightarrow> nat \<times> nat" where
  \<comment> \<open>the first \<open>k\<close> of the list with a candidate, and the candidate; for a real that
      is no binary64 value 17 digits may not read back, and the nearest are taken\<close>
  "first_candidate x n [] = (nat \<lfloor>x * pow10 (17 - n) + 1 / 2\<rfloor>, 17)"
| "first_candidate x n (k # ks) =
     (case candidate x n k of
        Some s \<Rightarrow> (s, k)
      | None \<Rightarrow> first_candidate x n ks)"

definition significand :: "real \<Rightarrow> nat \<times> int" where
  \<comment> \<open>for \<open>0 < x\<close>, the pair \<open>(s, n)\<close>; a candidate \<open>10 ^ k\<close> is \<open>1\<close> with the
      next \<open>n\<close>\<close>
  "significand x =
     (let n = decimal_exponent x;
          (s, k) = first_candidate x n [1, 2, 3, 4, 5, 6, 7, 8, 9, 10, 11, 12, 13, 14, 15, 16, 17]
      in (strip_zeros s, if s = 10 ^ k then n + 1 else n))"

definition format_positive :: "real \<Rightarrow> jsstring" where
  "format_positive x =
     (let (s, n) = significand x;
          ds = digits_of s;
          k = int (length ds)
      in if -5 \<le> n \<and> n \<le> 21 then
           (if k \<le> n then ds @ replicate (nat (n - k)) 0x30
            else if 0 < n then take (nat n) ds @ u16 ''.'' @ drop (nat n) ds
            else u16 ''0.'' @ replicate (nat (- n)) 0x30 @ ds)
         else
           (let e = n - 1;
                es = u16 (if 0 < e then ''e+'' else ''e-'') @ digits_of (nat \<bar>e\<bar>)
            in if k = 1 then ds @ es else take 1 ds @ u16 ''.'' @ drop 1 ds @ es))"

fun Number_toString :: "jsnum \<Rightarrow> jsstring" where
  "Number_toString NaN = u16 ''NaN''"
| "Number_toString PosInf = u16 ''Infinity''"
| "Number_toString NegInf = u16 ''-Infinity''"
| "Number_toString (Fin x) =
     (if x = 0 then u16 ''0''
      else if x < 0 then u16 ''-'' @ format_positive (- x)
      else format_positive x)"

subsection \<open>Strings to numbers\<close>

text \<open>
  \<^verbatim>\<open>StringToNumber\<close>: the text without surrounding white space is a numeric literal
  or the result is \<^verbatim>\<open>NaN\<close>; the empty text is 0. The value of a literal is the real it
  denotes, rounded to binary64.
\<close>

definition is_ws :: "16 word \<Rightarrow> bool" where
  \<comment> \<open>white space and line terminators: \<^verbatim>\<open>StrWhiteSpaceChar\<close>, also the regular
      expression class \<^verbatim>\<open>\s\<close>\<close>
  "is_ws c \<longleftrightarrow>
     c \<in> {0x09, 0x0A, 0x0B, 0x0C, 0x0D, 0x20, 0xA0, 0x1680, 0x2028, 0x2029, 0x202F,
          0x205F, 0x3000, 0xFEFF} \<or> (0x2000 \<le> c \<and> c \<le> 0x200A)"

definition is_digit :: "16 word \<Rightarrow> bool" where
  "is_digit c \<longleftrightarrow> 0x30 \<le> c \<and> c \<le> 0x39"

definition hex_val :: "16 word \<Rightarrow> nat option" where
  "hex_val c =
     (if 0x30 \<le> c \<and> c \<le> 0x39 then Some (unat c - 0x30)
      else if 0x61 \<le> c \<and> c \<le> 0x66 then Some (unat c - 0x61 + 10)
      else if 0x41 \<le> c \<and> c \<le> 0x46 then Some (unat c - 0x41 + 10)
      else None)"

fun radix_val :: "nat \<Rightarrow> nat \<Rightarrow> jsstring \<Rightarrow> nat option" where
  \<comment> \<open>the digits of \<open>cs\<close> in radix \<open>b\<close>, after the value \<open>acc\<close> read so far\<close>
  "radix_val b acc [] = Some acc"
| "radix_val b acc (c # cs) =
     (case hex_val c of
        None \<Rightarrow> None
      | Some d \<Rightarrow> if d < b then radix_val b (b * acc + d) cs else None)"

definition digits_val :: "jsstring \<Rightarrow> nat" where
  "digits_val cs = foldl (\<lambda>acc c. 10 * acc + (unat c - 0x30)) 0 cs"

definition parse_exponent :: "jsstring \<Rightarrow> int option" where
  \<comment> \<open>an optional \<^verbatim>\<open>ExponentPart\<close> that must use up the text\<close>
  "parse_exponent t =
     (case t of
        [] \<Rightarrow> Some 0
      | c # r \<Rightarrow>
          if c = 0x65 \<or> c = 0x45 then
            (let (neg, ds) =
               (case r of
                  [] \<Rightarrow> (False, [])
                | d # r' \<Rightarrow> if d = 0x2D then (True, r') else if d = 0x2B then (False, r')
                            else (False, r))
             in if ds \<noteq> [] \<and> list_all is_digit ds
                then Some (if neg then - int (digits_val ds) else int (digits_val ds))
                else None)
          else None)"

definition parse_unsigned_decimal :: "jsstring \<Rightarrow> jsnum option" where
  \<comment> \<open>\<^verbatim>\<open>StrUnsignedDecimalLiteral\<close>\<close>
  "parse_unsigned_decimal t =
     (if t = u16 ''Infinity'' then Some PosInf
      else
        (let ip = takeWhile is_digit t;
             r1 = dropWhile is_digit t;
             (fp, r2) =
               (case r1 of
                  [] \<Rightarrow> ([], [])
                | c # r \<Rightarrow> if c = 0x2E then (takeWhile is_digit r, dropWhile is_digit r)
                           else ([], r1))
         in if ip = [] \<and> fp = [] then None
            else
              (case parse_exponent r2 of
                 None \<Rightarrow> None
               | Some e \<Rightarrow>
                   Some (binary64
                          ((real (digits_val ip) + real (digits_val fp) / 10 ^ length fp)
                           * pow10 e)))))"

definition parse_non_decimal :: "jsstring \<Rightarrow> jsnum option" where
  \<comment> \<open>\<^verbatim>\<open>NonDecimalIntegerLiteral\<close>: \<^verbatim>\<open>0x\<close>, \<^verbatim>\<open>0o\<close>, \<^verbatim>\<open>0b\<close> and their digits\<close>
  "parse_non_decimal t =
     (case t of
        z # p # ds \<Rightarrow>
          (let b = (if p = 0x78 \<or> p = 0x58 then 16 else if p = 0x6F \<or> p = 0x4F then 8
                    else if p = 0x62 \<or> p = 0x42 then 2 else 0)
           in if z = 0x30 \<and> b \<noteq> 0 \<and> ds \<noteq> []
              then map_option (\<lambda>n. binary64 (real n)) (radix_val b 0 ds) else None)
      | _ \<Rightarrow> None)"

definition parse_numeric_literal :: "jsstring \<Rightarrow> jsnum option" where
  \<comment> \<open>\<^verbatim>\<open>StrNumericLiteral\<close>: a signed decimal literal or an unsigned non-decimal one\<close>
  "parse_numeric_literal t =
     (case parse_non_decimal t of
        Some x \<Rightarrow> Some x
      | None \<Rightarrow>
          (case t of
             [] \<Rightarrow> None
           | c # r \<Rightarrow>
               if c = 0x2D then map_option js_neg (parse_unsigned_decimal r)
               else if c = 0x2B then parse_unsigned_decimal r
               else parse_unsigned_decimal t))"

definition trim :: "jsstring \<Rightarrow> jsstring" where
  "trim s = rev (dropWhile is_ws (rev (dropWhile is_ws s)))"

definition StringToNumber :: "jsstring \<Rightarrow> jsnum" where
  "StringToNumber s =
     (let t = trim s
      in if t = [] then Fin 0
         else (case parse_numeric_literal t of None \<Rightarrow> NaN | Some x \<Rightarrow> x))"

subsection \<open>Property access and the conversions \<^verbatim>\<open>ToBoolean\<close>, \<^verbatim>\<open>ToString\<close>, \<^verbatim>\<open>ToNumber\<close>\<close>

definition own_property :: "(jsstring \<times> jsval) list \<Rightarrow> jsstring \<Rightarrow> jsval option" where
  "own_property fs k = map_of fs k"

definition get_property :: "jsval \<Rightarrow> jsstring \<Rightarrow> error + jsval" where
  \<comment> \<open>\<^verbatim>\<open>v.k\<close> for the names \<^verbatim>\<open>weight\<close> and \<^verbatim>\<open>goalWeight\<close>, which no built-in prototype
      defines: reading from \<^verbatim>\<open>undefined\<close> or \<^verbatim>\<open>null\<close> throws, a primitive or an array
      has no such property, an object may have it as its own\<close>
  "get_property v k =
     (case v of
        JUndefined \<Rightarrow> Inl TypeError
      | JNull \<Rightarrow> Inl TypeError
      | JObject fs \<Rightarrow> Inr (case own_property fs k of None \<Rightarrow> JUndefined | Some x \<Rightarrow> x)
      | _ \<Rightarrow> Inr JUndefined)"

fun ToBoolean :: "jsval \<Rightarrow> bool" where
  "ToBoolean JUndefined = False"
| "ToBoolean JNull = False"
| "ToBoolean (JBoolean b) = b"
| "ToBoolean (JNumber n) = truthy_num n"
| "ToBoolean (JString s) = (s \<noteq> [])"
| "ToBoolean (JArray xs) = True"
| "ToBoolean (JObject fs) = True"

text \<open>
  A plain object inherits \<^verbatim>\<open>toString\<close> (giving \<^verbatim>\<open>[object Object]\<close>) and \<^verbatim>\<open>valueOf\<close>
  (giving the object itself) from \<^verbatim>\<open>Object.prototype\<close>. An own property of either
  name hides the inherited method and, being data, cannot be called. Converting an
  object to a primitive therefore succeeds exactly when it has no own \<^verbatim>\<open>toString\<close>,
  whichever of the two methods is tried first. An array converts through \<^verbatim>\<open>join\<close>:
  the elements' strings separated by commas, \<^verbatim>\<open>undefined\<close> and \<^verbatim>\<open>null\<close> giving the
  empty string.
\<close>

fun ToString :: "jsval \<Rightarrow> error + jsstring"
  and join :: "jsval list \<Rightarrow> error + jsstring"
  and join_element :: "jsval \<Rightarrow> error + jsstring"
where
  "ToString JUndefined = Inr (u16 ''undefined'')"
| "ToString JNull = Inr (u16 ''null'')"
| "ToString (JBoolean b) = Inr (u16 (if b then ''true'' else ''false''))"
| "ToString (JNumber n) = Inr (Number_toString n)"
| "ToString (JString s) = Inr s"
| "ToString (JArray xs) = join xs"
| "ToString (JObject fs) =
     (if own_property fs (u16 ''toString'') \<noteq> None then Inl TypeError
      else Inr (u16 ''[object Object]''))"
| "join [] = Inr []"
| "join [x] = join_element x"
| "join (x # y # ys) =
     and_then (join_element x) (\<lambda>a.
     and_then (join (y # ys)) (\<lambda>b. Inr (a @ u16 '','' @ b)))"
| "join_element JUndefined = Inr []"
| "join_element JNull = Inr []"
| "join_element v = ToString v"

definition ToNumber :: "jsval \<Rightarrow> error + jsnum" where
  \<comment> \<open>also the function \<^verbatim>\<open>Number(v)\<close>\<close>
  "ToNumber v =
     (case v of
        JUndefined \<Rightarrow> Inr NaN
      | JNull \<Rightarrow> Inr (Fin 0)
      | JBoolean b \<Rightarrow> Inr (Fin (if b then 1 else 0))
      | JNumber n \<Rightarrow> Inr n
      | JString s \<Rightarrow> Inr (StringToNumber s)
      | _ \<Rightarrow> and_then (ToString v) (\<lambda>s. Inr (StringToNumber s)))"

definition call_toString :: "jsval \<Rightarrow> error + jsstring" where
  \<comment> \<open>the method call \<^verbatim>\<open>v.toString()\<close>: the methods of the primitives' prototypes and
      of arrays and plain objects give what \<^verbatim>\<open>ToString\<close> gives\<close>
  "call_toString v =
     (case v of JUndefined \<Rightarrow> Inl TypeError | JNull \<Rightarrow> Inl TypeError | _ \<Rightarrow> ToString v)"

subsection \<open>The two regular expressions\<close>

text \<open>
  Both expressions carry the flag \<^verbatim>\<open>i\<close> and neither \<^verbatim>\<open>g\<close> nor \<^verbatim>\<open>y\<close>, so \<^verbatim>\<open>test\<close>
  keeps no position between calls and looks for a match from every start index. Without
  the flag \<^verbatim>\<open>u\<close> a code unit outside ASCII never folds to an ASCII letter, so a
  pattern letter matches its lower-case and its upper-case form only. After \<^verbatim>\<open>\s*\<close>
  the pattern wants the letter \<^verbatim>\<open>f\<close>, which is not white space: the only way to match
  is to skip all the white space there is.
\<close>

definition ci_match :: "char \<Rightarrow> 16 word \<Rightarrow> bool" where
  \<comment> \<open>a pattern character (not an upper-case letter) against a code unit of the text:
      the character itself or, for a lower-case letter, its upper-case form\<close>
  "ci_match p c \<longleftrightarrow>
     c = of_char p \<or> (0x61 \<le> (of_char p :: nat) \<and> (of_char p :: nat) \<le> 0x7A \<and> c = of_char p - 0x20)"

fun match_literal :: "string \<Rightarrow> jsstring \<Rightarrow> jsstring option" where
  \<comment> \<open>the letters of the pattern at the start of the text; gives the rest of the text\<close>
  "match_literal [] s = Some s"
| "match_literal (p # ps) [] = None"
| "match_literal (p # ps) (c # cs) = (if ci_match p c then match_literal ps cs else None)"

definition fat_fast_here :: "jsstring \<Rightarrow> bool" where
  "fat_fast_here s =
     (case match_literal ''fat'' s of
        None \<Rightarrow> False
      | Some r \<Rightarrow> match_literal ''fast'' (dropWhile is_ws r) \<noteq> None)"

definition psmf_here :: "jsstring \<Rightarrow> bool" where
  "psmf_here s = (match_literal ''psmf'' s \<noteq> None)"

fun search :: "(jsstring \<Rightarrow> bool) \<Rightarrow> jsstring \<Rightarrow> bool" where
  "search m [] = m []"
| "search m (c # cs) = (m (c # cs) \<or> search m cs)"

definition test_fat_fast :: "jsstring \<Rightarrow> bool" where
  \<comment> \<open>\<^verbatim>\<open>/fat\s*fast/i.test(s)\<close>\<close>
  "test_fat_fast s = search fat_fast_here s"

definition test_psmf :: "jsstring \<Rightarrow> bool" where
  \<comment> \<open>\<^verbatim>\<open>/psmf/i.test(s)\<close>\<close>
  "test_psmf s = search psmf_here s"

text \<open>
  The wording of the specification, ``the label contains the token, ignoring case'', for
  comparison with the two tests above.
\<close>

definition contains_ci :: "string \<Rightarrow> jsstring \<Rightarrow> bool" where
  "contains_ci token s = search (\<lambda>t. match_literal token t \<noteq> None) s"

section \<open>The advice generator\<close>

text \<open>
  \<^verbatim>\<open>function buildMockAdvice({ userProfile = {}, protocol = 'Keto', doctorNotes = '' })\<close>.
  Both call sites pass an object literal with exactly these three properties, each
  \<^verbatim>\<open>undefined\<close> when the request body lacks it.
\<close>

record args =
  userProfile :: jsval
  protocol :: jsval
  doctorNotes :: jsval

text \<open>The object literal handed to \<^verbatim>\<open>JSON.stringify\<close> at line 60.\<close>

record advice =
  hydrationL :: jsnum
  proteinG :: jsnum
  phase :: jsstring
  rules :: "jsstring list"
  "notes" :: jsstring

definition default_to :: "jsval \<Rightarrow> jsval \<Rightarrow> jsval" where
  \<comment> \<open>a destructuring default: used for \<^verbatim>\<open>undefined\<close> only\<close>
  "default_to v d = (case v of JUndefined \<Rightarrow> d | _ \<Rightarrow> v)"

definition nullish :: "jsval \<Rightarrow> jsval \<Rightarrow> jsval" where
  \<comment> \<open>\<^verbatim>\<open>v ?? d\<close>\<close>
  "nullish v d = (case v of JUndefined \<Rightarrow> d | JNull \<Rightarrow> d | _ \<Rightarrow> v)"

definition number_field :: "jsval \<Rightarrow> string \<Rightarrow> jsnum \<Rightarrow> error + jsnum" where
  \<comment> \<open>lines 25 and 26: \<^verbatim>\<open>Number(userProfile.k ?? d)\<close>\<close>
  "number_field up k d =
     and_then (get_property up (u16 k)) (\<lambda>v. ToNumber (nullish v (JNumber d)))"

definition delta_of :: "jsnum \<Rightarrow> jsnum \<Rightarrow> jsnum" where
  \<comment> \<open>line 27: \<^verbatim>\<open>Math.max(0, weight - goalWeight)\<close>\<close>
  "delta_of weight goalWeight = Math_max (Fin 0) (js_sub weight goalWeight)"

definition proteinG_of :: "jsnum \<Rightarrow> jsnum" where
  \<comment> \<open>line 30: \<^verbatim>\<open>Math.min(230, Math.max(120, Math.round(0.8 * (goalWeight || 190))))\<close>\<close>
  "proteinG_of goalWeight =
     Math_min (Fin 230) (Math_max (Fin 120)
       (Math_round
         (js_mul (binary64 0.8) (if truthy_num goalWeight then goalWeight else Fin 190))))"

definition hydrationL_of :: "jsnum \<Rightarrow> jsnum" where
  \<comment> \<open>line 33: \<^verbatim>\<open>Math.min(5, Math.max(3, 3 + (delta > 30 ? 0.5 : 0)))\<close>\<close>
  "hydrationL_of delta =
     Math_min (Fin 5) (Math_max (Fin 3)
       (js_add (Fin 3) (if js_gt delta (Fin 30) then Fin 0.5 else Fin 0)))"

definition normalizedPhase_of :: "jsval \<Rightarrow> error + jsstring" where
  \<comment> \<open>line 36: \<^verbatim>\<open>(protocol || 'Keto').toString()\<close>\<close>
  "normalizedPhase_of p = call_toString (if ToBoolean p then p else JString (u16 ''Keto''))"

definition en_dash :: jsstring where
  "en_dash = [0x2013]"

definition base_rules :: "jsnum \<Rightarrow> jsnum \<Rightarrow> jsstring list" where
  \<comment> \<open>lines 38 to 44; the first rule has the sign U+2265 after \<^verbatim>\<open>Hit\<close>\<close>
  "base_rules p h =
     [u16 ''Hit '' @ [0x2265] @ u16 '' '' @ Number_toString p
        @ u16 '' g protein today (shakes + meal 3).'',
      u16 ''Hydration: '' @ Number_toString h @ u16 '' L by bedtime (500'' @ en_dash
        @ u16 ''750 mL every 2'' @ en_dash @ u16 ''3h).'',
      u16 ''Stop last meal 5'' @ en_dash @ u16 ''6h before sleep.'',
      u16 ''Log symptoms (migraine, nausea, IBS) and meds.'',
      u16 ''Movement: 40 min baseline (80% low intensity, 20% HIIT) if energy ok.'']"

definition fat_fast_rule :: jsstring where
  "fat_fast_rule =
     u16 ''Fat Fast: 1000'' @ en_dash @ u16 ''1200 kcal, 85'' @ en_dash
       @ u16 ''90% fat, 3 days max.''"

definition psmf_rule :: jsstring where
  "psmf_rule =
     u16 ''PSMF: 180'' @ en_dash
       @ u16 ''190 g protein, very low fat/carbs, electrolytes daily.''"

definition unshift_phase_rules :: "jsstring \<Rightarrow> jsstring list \<Rightarrow> jsstring list" where
  \<comment> \<open>lines 46 to 51: two \<^verbatim>\<open>unshift\<close> calls, the fat-fast one first\<close>
  "unshift_phase_rules normalizedPhase rules0 =
     (let rules1 = (if test_fat_fast normalizedPhase then fat_fast_rule # rules0 else rules0);
          rules2 = (if test_psmf normalizedPhase then psmf_rule # rules1 else rules1)
      in rules2)"

definition doctor_note_rule :: "jsstring \<Rightarrow> jsstring" where
  \<comment> \<open>the template of line 54, for the string of the notes\<close>
  "doctor_note_rule s = u16 ''Note from doctor plan considered: '' @ take 120 s @ u16 ''...''"

definition push_doctor_note :: "jsval \<Rightarrow> jsstring list \<Rightarrow> error + jsstring list" where
  \<comment> \<open>lines 53 to 55\<close>
  "push_doctor_note dn rules2 =
     (if ToBoolean dn
      then and_then (ToString dn) (\<lambda>s. Inr (rules2 @ [doctor_note_rule s]))
      else Inr rules2)"

definition notes_text :: jsstring where
  "notes_text =
     u16 (''Mock mode active. This advice is generated locally for development. ''
          @ ''When API billing is ready, disable mock to use NeuroFuel GPT.'')"

definition buildMockAdvice_payload :: "args \<Rightarrow> error + advice" where
  \<comment> \<open>the body of \<^verbatim>\<open>buildMockAdvice\<close> up to the object it serialises\<close>
  "buildMockAdvice_payload a =
     (let up = default_to (userProfile a) (JObject []);
          pr = default_to (protocol a) (JString (u16 ''Keto''));
          dn = default_to (doctorNotes a) (JString [])
      in
      and_then (number_field up ''weight'' (binary64 255.3)) (\<lambda>weight.
      and_then (number_field up ''goalWeight'' (Fin 190)) (\<lambda>goalWeight.
      and_then (normalizedPhase_of pr) (\<lambda>normalizedPhase.
      and_then
        (push_doctor_note dn
          (unshift_phase_rules normalizedPhase
            (base_rules (proteinG_of goalWeight)
              (hydrationL_of (delta_of weight goalWeight))))) (\<lambda>rules3.
      Inr \<lparr> hydrationL = hydrationL_of (delta_of weight goalWeight),
            proteinG = proteinG_of goalWeight,
            phase = normalizedPhase,
            rules = rules3,
            notes = notes_text \<rparr>)))))"

subsection \<open>Serialisation\<close>

text \<open>
  \<^verbatim>\<open>JSON.stringify\<close> on the object literal: the properties in the order written, a
  finite number through \<^verbatim>\<open>Number::toString\<close>, a string through \<^verbatim>\<open>QuoteJSONString\<close>
  (short escapes for the quote, the backslash and five control characters, \<^verbatim>\<open>\u\<close>
  escapes for the other control characters and for unpaired surrogates).
\<close>

definition hex_digit :: "nat \<Rightarrow> 16 word" where
  "hex_digit d = (if d < 10 then of_nat (0x30 + d) else of_nat (0x61 + (d - 10)))"

definition unicode_escape :: "16 word \<Rightarrow> jsstring" where
  "unicode_escape c =
     [0x5C, 0x75, hex_digit (unat c div 4096), hex_digit (unat c div 256 mod 16),
      hex_digit (unat c div 16 mod 16), hex_digit (unat c mod 16)]"

definition is_high_surrogate :: "16 word \<Rightarrow> bool" where
  "is_high_surrogate c \<longleftrightarrow> 0xD800 \<le> c \<and> c \<le> 0xDBFF"

definition is_low_surrogate :: "16 word \<Rightarrow> bool" where
  "is_low_surrogate c \<longleftrightarrow> 0xDC00 \<le> c \<and> c \<le> 0xDFFF"

definition quote_unit :: "16 word \<Rightarrow> jsstring" where
  "quote_unit c =
     (if c = 0x08 then [0x5C, 0x62]
      else if c = 0x09 then [0x5C, 0x74]
      else if c = 0x0A then [0x5C, 0x6E]
      else if c = 0x0C then [0x5C, 0x66]
      else if c = 0x0D then [0x5C, 0x72]
      else if c = 0x22 then [0x5C, 0x22]
      else if c = 0x5C then [0x5C, 0x5C]
      else if c < 0x20 \<or> is_high_surrogate c \<or> is_low_surrogate c then unicode_escape c
      else [c])"

fun quote_units :: "jsstring \<Rightarrow> jsstring" where
  "quote_units [] = []"
| "quote_units [c] = quote_unit c"
| "quote_units (c # d # cs) =
     (if is_high_surrogate c \<and> is_low_surrogate d then c # d # quote_units cs
      else quote_unit c @ quote_units (d # cs))"

definition QuoteJSONString :: "jsstring \<Rightarrow> jsstring" where
  "QuoteJSONString s = [0x22] @ quote_units s @ [0x22]"

definition stringify_number :: "jsnum \<Rightarrow> jsstring" where
  "stringify_number n = (case n of Fin x \<Rightarrow> Number_toString n | _ \<Rightarrow> u16 ''null'')"

fun comma_separated :: "jsstring list \<Rightarrow> jsstring" where
  "comma_separated [] = []"
| "comma_separated [x] = x"
| "comma_separated (x # y # ys) = x @ u16 '','' @ comma_separated (y # ys)"

definition property :: "string \<Rightarrow> jsstring \<Rightarrow> jsstring" where
  "property k v = QuoteJSONString (u16 k) @ u16 '':'' @ v"

definition JSON_stringify :: "advice \<Rightarrow> jsstring" where
  "JSON_stringify r =
     u16 ''{'' @ comma_separated
       [property ''hydrationL'' (stringify_number (hydrationL r)),
        property ''proteinG'' (stringify_number (proteinG r)),
        property ''phase'' (QuoteJSONString (phase r)),
        property ''rules''
          (u16 ''['' @ comma_separated (map QuoteJSONString (rules r)) @ u16 '']''),
        property ''notes'' (QuoteJSONString (notes r))] @ u16 ''}''"

definition buildMockAdvice :: "args \<Rightarrow> error + jsstring" where
  "buildMockAdvice a = and_then (buildMockAdvice_payload a) (\<lambda>r. Inr (JSON_stringify r))"


section \<open>The call and the store\<close>

text \<open>
  The function has one object of its own: the array \<^verbatim>\<open>rules\<close>. The array literal at
  line 38 allocates it, \<^verbatim>\<open>unshift\<close> and \<^verbatim>\<open>push\<close> change it in place, and
  \<^verbatim>\<open>JSON.stringify\<close> reads it at line 60. (The two regular expression objects carry
  neither the flag \<^verbatim>\<open>g\<close> nor \<^verbatim>\<open>y\<close>, so \<^verbatim>\<open>test\<close> neither reads nor writes their
  \<^verbatim>\<open>lastIndex\<close>.) Here the call runs in a store of arrays, which it receives and
  hands back: whatever earlier calls left behind is in the store the next call starts
  from. The function names no variable of the module and none of its arguments is
  written to.
\<close>

record store =
  arrays :: "nat \<Rightarrow> jsstring list"
  next_ref :: nat

definition array_literal :: "jsstring list \<Rightarrow> store \<Rightarrow> nat \<times> store" where
  \<comment> \<open>a new array, at a reference not handed out before\<close>
  "array_literal xs st =
     (next_ref st, st\<lparr>arrays := (arrays st)(next_ref st := xs), next_ref := Suc (next_ref st)\<rparr>)"

definition array_unshift :: "nat \<Rightarrow> jsstring \<Rightarrow> store \<Rightarrow> store" where
  "array_unshift r x st = st\<lparr>arrays := (arrays st)(r := x # arrays st r)\<rparr>"

definition array_push :: "nat \<Rightarrow> jsstring \<Rightarrow> store \<Rightarrow> store" where
  "array_push r x st = st\<lparr>arrays := (arrays st)(r := arrays st r @ [x])\<rparr>"

definition buildMockAdvice_call :: "store \<Rightarrow> args \<Rightarrow> (error + jsstring) \<times> store" where
  \<comment> \<open>lines 24 to 67, statement by statement; an exception leaves with the store as it
      is at that point\<close>
  "buildMockAdvice_call st a =
     (let up = default_to (userProfile a) (JObject []);
          pr = default_to (protocol a) (JString (u16 ''Keto''));
          dn = default_to (doctorNotes a) (JString [])
      in
      case number_field up ''weight'' (binary64 255.3) of
        Inl e \<Rightarrow> (Inl e, st)
      | Inr weight \<Rightarrow>
      (case number_field up ''goalWeight'' (Fin 190) of
        Inl e \<Rightarrow> (Inl e, st)
      | Inr goalWeight \<Rightarrow>
      (case normalizedPhase_of pr of
        Inl e \<Rightarrow> (Inl e, st)
      | Inr normalizedPhase \<Rightarrow>
      (let p = proteinG_of goalWeight;
           h = hydrationL_of (delta_of weight goalWeight);
           (rules_ref, st1) = array_literal (base_rules p h) st;
           st2 = (if test_fat_fast normalizedPhase
                  then array_unshift rules_ref fat_fast_rule st1 else st1);
           st3 = (if test_psmf normalizedPhase
                  then array_unshift rules_ref psmf_rule st2 else st2)
       in
       if ToBoolean dn then
         (case ToString dn of
            Inl e \<Rightarrow> (Inl e, st3)
          | Inr s \<Rightarrow>
              (let st4 = array_push rules_ref (doctor_note_rule s) st3
               in (Inr (JSON_stringify
                         \<lparr> hydrationL = h, proteinG = p, phase = normalizedPhase,
                           rules = arrays st4 rules_ref, notes = notes_text \<rparr>), st4)))
       else
         (Inr (JSON_stringify
                \<lparr> hydrationL = h, proteinG = p, phase = normalizedPhase,
                  rules = arrays st3 rules_ref, notes = notes_text \<rparr>), st3)))))"

section \<open>Basic facts about the model\<close>

lemma and_then_Inr_iff: "and_then r f = Inr y \<longleftrightarrow> (\<exists>x. r = Inr x \<and> f x = Inr y)"
  by (cases r) (simp_all add: and_then_def)

lemma and_then_Inr [simp]: "and_then (Inr x) f = f x"
  by (simp add: and_then_def)

lemma and_then_Inl [simp]: "and_then (Inl e) f = Inl e"
  by (simp add: and_then_def)

lemma u16_Cons: "u16 (c # cs) = of_char c # u16 cs"
  by (simp add: u16_def)

lemma u16_Nil: "u16 [] = []"
  by (simp add: u16_def)

lemma u16_eq_Nil [simp]: "u16 s = [] \<longleftrightarrow> s = []"
  by (simp add: u16_def)

lemma Math_max_Fin: "Math_max (Fin a) (Fin b) = Fin (max a b)"
  by (simp add: Math_max_def max_def)

lemma Math_min_Fin: "Math_min (Fin a) (Fin b) = Fin (min a b)"
  by (simp add: Math_min_def min_def)

subsection \<open>Rounding to binary64\<close>

lemma pow2_pos: "0 < pow2 e"
  by (simp add: pow2_def)

lemma bit_length_pow: "0 < n \<Longrightarrow> 2 ^ (bit_length n - 1) \<le> n"
proof (induction n rule: bit_length.induct)
  case (1 n)
  show ?case
  proof (cases "n div 2 = 0")
    case True
    with "1.prems" have "n = 1"
      by (simp add: div_eq_0_iff)
    then show ?thesis
      by (simp add: bit_length.simps)
  next
    case False
    with "1.IH" "1.prems" have ih: "2 ^ (bit_length (n div 2) - 1) \<le> n div 2"
      by simp
    from False have "0 < bit_length (n div 2)"
      by (subst bit_length.simps) simp
    then have "(2::nat) ^ bit_length (n div 2) = 2 * 2 ^ (bit_length (n div 2) - 1)"
      by (cases "bit_length (n div 2)") simp_all
    with ih have "(2::nat) ^ bit_length (n div 2) \<le> n"
      by simp
    with "1.prems" show ?thesis
      by (subst bit_length.simps) simp
  qed
qed

lemma binary_exponent_le:
  assumes "0 < x" and "x \<le> 2 ^ p"
  shows "binary_exponent x \<le> int p"
proof (cases "1 \<le> x")
  case True
  let ?n = "nat \<lfloor>x\<rfloor>"
  from True have pos: "0 < ?n"
    by simp
  from assms(2) have "\<lfloor>x\<rfloor> \<le> 2 ^ p"
    by (simp add: floor_le_iff)
  then have "?n \<le> 2 ^ p"
    by (simp add: nat_le_iff)
  with bit_length_pow [OF pos] have "(2::nat) ^ (bit_length ?n - 1) \<le> 2 ^ p"
    by (rule order_trans)
  then have "bit_length ?n - 1 \<le> p"
    using power_le_imp_le_exp [of "2::nat" "bit_length ?n - 1" p] by simp
  with True show ?thesis
    by (simp add: binary_exponent_def)
next
  case False
  then show ?thesis
    by (simp add: binary_exponent_def)
qed

lemma round_half_even_le:
  assumes "y \<le> of_int m"
  shows "round_half_even y \<le> m"
proof (cases "\<lfloor>y\<rfloor> = m")
  case True
  with assms have "y = of_int m"
    by (metis of_int_floor_le order_antisym)
  then show ?thesis
    by (simp add: round_half_even_def)
next
  case False
  moreover from assms have "\<lfloor>y\<rfloor> \<le> m"
    by (simp add: floor_le_iff)
  ultimately have "\<lfloor>y\<rfloor> + 1 \<le> m"
    by simp
  then show ?thesis
    by (simp add: round_half_even_def Let_def)
qed

lemma round_half_even_ge:
  assumes "of_int m \<le> y"
  shows "m \<le> round_half_even y"
proof -
  from assms have "m \<le> \<lfloor>y\<rfloor>"
    by (simp add: le_floor_iff)
  then show ?thesis
    by (simp add: round_half_even_def Let_def)
qed

lemma round64_nonneg:
  assumes "0 \<le> x"
  shows "0 \<le> round64 x"
proof -
  have "0 \<le> round_half_even (x / pow2 e)" for e
    using assms pow2_pos [of e] by (intro round_half_even_ge) simp
  with pow2_pos show ?thesis
    by (simp add: round64_def Let_def less_imp_le)
qed

text \<open>Rounding does not step over an integer that binary64 has exactly.\<close>

lemma round64_le:
  assumes "x \<le> of_int c" and "0 \<le> c" and "c \<le> 2 ^ 52"
  shows "round64 x \<le> of_int c"
proof (cases "0 < x")
  case False
  have "round_half_even (x / pow2 e) \<le> 0" for e
    using False pow2_pos [of e]
    by (intro round_half_even_le) (simp add: divide_nonpos_pos)
  then have "of_int (round_half_even (x / pow2 e)) * pow2 e \<le> 0" for e
    using pow2_pos [of e] by (simp add: mult_le_0_iff less_imp_le)
  with assms(2) show ?thesis
    by (simp add: round64_def Let_def) (metis of_int_0_le_iff order_trans)
next
  case True
  define e where "e = max (binary_exponent \<bar>x\<bar>) (- 1022)"
  define N where "N = nat (52 - e)"
  from True assms(1,3) have "x \<le> 2 ^ 52"
    by (metis of_int_le_iff of_int_numeral of_int_power order_trans)
  with True have "binary_exponent \<bar>x\<bar> \<le> 52"
    using binary_exponent_le [of x 52] by simp
  then have e52: "e \<le> 52"
    by (simp add: e_def)
  then have q: "pow2 (e - 52) = 1 / 2 ^ N"
    by (cases "e = 52") (simp_all add: pow2_def N_def)
  have "x / pow2 (e - 52) \<le> of_int (c * 2 ^ N)"
    using assms(1) by (simp add: q mult_right_mono)
  then have "round_half_even (x / pow2 (e - 52)) \<le> c * 2 ^ N"
    by (rule round_half_even_le)
  then have "real_of_int (round_half_even (x / pow2 (e - 52))) \<le> of_int c * 2 ^ N"
    by (metis of_int_le_iff of_int_mult of_int_numeral of_int_power)
  then have "of_int (round_half_even (x / pow2 (e - 52))) * pow2 (e - 52) \<le> of_int c"
    by (simp add: q field_simps)
  with True show ?thesis
    by (simp add: round64_def Let_def e_def)
qed

lemma binary64_Fin:
  "- (2 ^ 1024) < round64 x \<Longrightarrow> round64 x < 2 ^ 1024 \<Longrightarrow> binary64 x = Fin (round64 x)"
  by (simp add: binary64_def Let_def)

lemma binary64_not_NaN: "binary64 x \<noteq> NaN"
  by (simp add: binary64_def Let_def)

lemma js_less_binary64:
  fixes c :: real
  assumes "c < 2 ^ 1024" and "- (2 ^ 1024) \<le> c"
  shows "js_less (Fin c) (binary64 x) \<longleftrightarrow> c < round64 x"
  using assms by (auto simp: binary64_def Let_def)

lemmas b64 =
  binary64_def round64_def round_half_even_def binary_exponent_def pow2_def
  bit_length.simps Let_def

text \<open>The literals 0.8 and 255.3 are not binary64 values; these are the nearest.\<close>

lemma round64_0_8: "round64 (4 / 5) = 3602879701896397 / 4503599627370496"
  by (simp add: b64)

lemma binary64_0_8: "binary64 (4 / 5) = Fin (3602879701896397 / 4503599627370496)"
  by (simp add: b64)

lemma binary64_255_3: "binary64 255.3 = Fin (4491285097139405 / 17592186044416)"
  by (simp add: b64)

lemma binary64_3: "binary64 3 = Fin 3"
  by (simp add: b64)

lemma binary64_7_2: "binary64 (7 / 2) = Fin (7 / 2)"
  by (simp add: b64)

lemma js_sub_Fin: "js_sub (Fin x) (Fin y) = binary64 (x - y)"
  by (simp add: js_sub_def)

lemma js_gt_binary64_30: "js_gt (binary64 d) (Fin 30) \<longleftrightarrow> 30 < round64 d"
  unfolding js_gt_def by (rule js_less_binary64) simp_all

lemma round64_gt_30: "30 < round64 d \<Longrightarrow> 30 < d"
  using round64_le [of d 30] by (cases "d \<le> 30") simp_all

text \<open>What a call that returns has computed on the way: the function body, read backwards.\<close>

lemma payload_InrD:
  assumes "buildMockAdvice_payload a = Inr out"
  obtains weight goalWeight normalizedPhase rules3 where
    "number_field (default_to (userProfile a) (JObject [])) ''weight'' (binary64 255.3)
       = Inr weight"
    "number_field (default_to (userProfile a) (JObject [])) ''goalWeight'' (Fin 190)
       = Inr goalWeight"
    "normalizedPhase_of (default_to (protocol a) (JString (u16 ''Keto''))) = Inr normalizedPhase"
    "push_doctor_note (default_to (doctorNotes a) (JString []))
       (unshift_phase_rules normalizedPhase
         (base_rules (proteinG_of goalWeight) (hydrationL_of (delta_of weight goalWeight))))
     = Inr rules3"
    "out = \<lparr> hydrationL = hydrationL_of (delta_of weight goalWeight),
            proteinG = proteinG_of goalWeight, phase = normalizedPhase,
            rules = rules3, notes = notes_text \<rparr>"
  using assms unfolding buildMockAdvice_payload_def Let_def and_then_Inr_iff
  by blast

text \<open>The other way round: the payload from the values computed on the way.\<close>

lemma payload_InrI:
  assumes "number_field (default_to (userProfile a) (JObject [])) ''weight'' (binary64 255.3)
       = Inr weight"
    and "number_field (default_to (userProfile a) (JObject [])) ''goalWeight'' (Fin 190)
       = Inr goalWeight"
    and "normalizedPhase_of (default_to (protocol a) (JString (u16 ''Keto'')))
       = Inr normalizedPhase"
    and "push_doctor_note (default_to (doctorNotes a) (JString []))
       (unshift_phase_rules normalizedPhase
         (base_rules (proteinG_of goalWeight) (hydrationL_of (delta_of weight goalWeight))))
     = Inr rules3"
  shows "buildMockAdvice_payload a =
         Inr \<lparr> hydrationL = hydrationL_of (delta_of weight goalWeight),
               proteinG = proteinG_of goalWeight, phase = normalizedPhase,
               rules = rules3, notes = notes_text \<rparr>"
  by (simp add: buildMockAdvice_payload_def Let_def assms)

subsection \<open>Parameters and profile fields\<close>

lemma default_to_JObject: "default_to (JObject fs) d = JObject fs"
  by (simp add: default_to_def)

lemma default_to_JString: "default_to (JString s) d = JString s"
  by (simp add: default_to_def)

lemma default_to_JUndefined: "default_to JUndefined d = d"
  by (simp add: default_to_def)

lemma default_to_truthy: "ToBoolean dn \<Longrightarrow> default_to dn d = dn"
  by (cases dn) (simp_all add: default_to_def)

lemma ToBoolean_default_notes: "ToBoolean (default_to dn (JString [])) = ToBoolean dn"
  by (cases dn) (simp_all add: default_to_def)

lemma nullish_idem: "nullish (nullish v (JNumber d)) d' = nullish v (JNumber d)"
  by (cases v) (simp_all add: nullish_def)

lemma own_property_Cons:
  "own_property ((k, v) # fs) k' = (if k = k' then Some v else own_property fs k')"
  by (simp add: own_property_def)

lemma own_property_Nil: "own_property [] k = None"
  by (simp add: own_property_def)

lemma get_property_JObject:
  "get_property (JObject fs) k =
     Inr (case own_property fs k of None \<Rightarrow> JUndefined | Some x \<Rightarrow> x)"
  by (simp add: get_property_def)

lemma weight_neq_goalWeight: "u16 ''goalWeight'' \<noteq> u16 ''weight''"
  by (simp add: u16_def)

lemma get_weight_goalWeight:
  "get_property (JObject [(u16 ''weight'', v), (u16 ''goalWeight'', v')]) (u16 ''weight'')
     = Inr v"
  "get_property (JObject [(u16 ''weight'', v), (u16 ''goalWeight'', v')]) (u16 ''goalWeight'')
     = Inr v'"
  by (simp_all add: get_property_JObject own_property_Cons weight_neq_goalWeight [symmetric])

lemma number_field_of_number:
  "get_property up (u16 k) = Inr (JNumber n) \<Longrightarrow> number_field up k d = Inr n"
  by (simp add: number_field_def nullish_def ToNumber_def)

lemma number_field_of_field:
  "get_property up (u16 k) = Inr v \<Longrightarrow> number_field up k d = ToNumber (nullish v (JNumber d))"
  by (simp add: number_field_def)

lemma number_field_absent: "number_field (JObject []) k d = Inr d"
  by (simp add: number_field_def get_property_def own_property_def nullish_def ToNumber_def)

lemma number_field_head: "number_field (JObject ((u16 k, JNumber n) # fs)) k d = Inr n"
  by (simp add: number_field_def get_property_JObject own_property_Cons nullish_def
      ToNumber_def)

lemma number_field_goalWeight_only:
  "number_field (JObject [(u16 ''goalWeight'', v)]) ''weight'' d = Inr d"
  by (simp add: number_field_def get_property_JObject own_property_Cons own_property_Nil
      weight_neq_goalWeight nullish_def ToNumber_def)

lemma number_field_weight_only:
  "number_field (JObject [(u16 ''weight'', v)]) ''goalWeight'' d = Inr d"
  by (simp add: number_field_def get_property_JObject own_property_Cons own_property_Nil
      weight_neq_goalWeight [symmetric] nullish_def ToNumber_def)

lemma get_goalWeight_head:
  "get_property (default_to (JObject ((u16 ''goalWeight'', v) # fs)) (JObject []))
     (u16 ''goalWeight'') = Inr v"
  by (simp add: default_to_def get_property_JObject own_property_Cons)

text \<open>
  A profile that spells out what \<^verbatim>\<open>??\<close> would choose is read like the profile it was
  made from.
\<close>

lemma number_field_explicit:
  assumes "get_property up (u16 ''weight'') = Inr v"
    and "get_property up (u16 ''goalWeight'') = Inr v'"
  shows "number_field
           (JObject [(u16 ''weight'', nullish v (JNumber (binary64 255.3))),
                     (u16 ''goalWeight'', nullish v' (JNumber (Fin 190)))])
           ''weight'' (binary64 255.3)
         = number_field up ''weight'' (binary64 255.3)"
    and "number_field
           (JObject [(u16 ''weight'', nullish v (JNumber (binary64 255.3))),
                     (u16 ''goalWeight'', nullish v' (JNumber (Fin 190)))])
           ''goalWeight'' (Fin 190)
         = number_field up ''goalWeight'' (Fin 190)"
  using assms
  by (simp_all add: number_field_def get_property_JObject own_property_Cons
      weight_neq_goalWeight [symmetric] nullish_idem)

subsection \<open>The two targets\<close>

lemma proteinG_default: "proteinG_of (Fin 190) = Fin 152"
  by (simp add: proteinG_of_def b64 Math_max_Fin Math_min_Fin)

lemma proteinG_of_Fin:
  "proteinG_of (Fin g) =
     (if g = 0 then Fin 152
      else Math_min (Fin 230) (Math_max (Fin 120) (Math_round (js_mul (binary64 0.8) (Fin g)))))"
  using proteinG_default by (simp add: proteinG_of_def)

text \<open>
  For a goal weight up to 1000 the product with 0.8 stays far from overflow, and the
  target is spelled out with the rounding of the literal and of the product.
\<close>

lemma proteinG_of_range:
  assumes "0 < g" and "g \<le> 1000"
  shows "proteinG_of (Fin g) =
           Fin (min 230 (max 120 (of_int \<lfloor>round64 (round64 0.8 * g) + 1 / 2\<rfloor>)))"
proof -
  let ?x = "round64 0.8 * g"
  from assms have lo: "0 \<le> ?x" and hi: "?x \<le> of_int 1000"
    by (simp_all add: round64_0_8)
  from lo have "0 \<le> round64 ?x"
    by (rule round64_nonneg)
  moreover from hi have "round64 ?x \<le> of_int 1000"
    by (rule round64_le) simp_all
  ultimately have "binary64 ?x = Fin (round64 ?x)"
    by (intro binary64_Fin) simp_all
  with assms(1) show ?thesis
    by (simp add: proteinG_of_Fin binary64_0_8 round64_0_8 Math_max_Fin Math_min_Fin)
qed

lemma clamp_integer:
  assumes "x \<noteq> NaN"
  shows "\<exists>n. Math_min (Fin 230) (Math_max (Fin 120) (Math_round x)) = Fin (of_int n)
           \<and> 120 \<le> n \<and> n \<le> 230"
proof (cases x)
  case (Fin y)
  have "min 230 (max 120 (real_of_int \<lfloor>y + 1 / 2\<rfloor>))
          = of_int (min 230 (max 120 \<lfloor>y + 1 / 2\<rfloor>))"
    by (simp add: min_def max_def)
  then have "Math_min (Fin 230) (Math_max (Fin 120) (Math_round x))
               = Fin (of_int (min 230 (max 120 \<lfloor>y + 1 / 2\<rfloor>)))"
    by (simp add: Fin Math_max_Fin Math_min_Fin)
  moreover have "120 \<le> min 230 (max 120 \<lfloor>y + 1 / 2\<rfloor>)"
    and "min 230 (max 120 \<lfloor>y + 1 / 2\<rfloor>) \<le> 230"
    by simp_all
  ultimately show ?thesis
    by blast
next
  case NaN
  with assms show ?thesis by simp
next
  case PosInf
  then have "Math_min (Fin 230) (Math_max (Fin 120) (Math_round x)) = Fin (of_int 230)"
    by (simp add: Math_max_def Math_min_def)
  then show ?thesis by (intro exI [of _ 230]) simp
next
  case NegInf
  then have "Math_min (Fin 230) (Math_max (Fin 120) (Math_round x)) = Fin (of_int 120)"
    by (simp add: Math_max_def Math_min_def)
  then show ?thesis by (intro exI [of _ 120]) simp
qed

lemma proteinG_of_integer: "\<exists>n. proteinG_of w = Fin (of_int n) \<and> 120 \<le> n \<and> n \<le> 230"
proof -
  have "js_mul (binary64 0.8) (if truthy_num w then w else Fin 190) \<noteq> NaN"
    by (cases w) (simp_all add: binary64_0_8 binary64_not_NaN)
  then show ?thesis
    unfolding proteinG_of_def by (rule clamp_integer)
qed

lemma js_gt_delta: "js_gt (Math_max (Fin 0) d) (Fin 30) = js_gt d (Fin 30)"
  by (cases d) (auto simp: Math_max_def js_gt_def)

lemma hydrationL_of_delta:
  "hydrationL_of (delta_of w g) = (if js_gt (js_sub w g) (Fin 30) then Fin 3.5 else Fin 3)"
  by (simp add: hydrationL_of_def delta_of_def js_gt_delta binary64_3 binary64_7_2
      Math_max_Fin Math_min_Fin)

lemma hydrationL_default: "hydrationL_of (delta_of (binary64 255.3) (Fin 190)) = Fin 3.5"
  by (simp add: hydrationL_of_delta binary64_255_3 js_sub_Fin js_gt_binary64_30)
    (simp add: b64)

lemma hydrationL_NaN_weight: "hydrationL_of (delta_of NaN g) = Fin 3"
  by (simp add: hydrationL_of_delta js_sub_def js_gt_def)

subsection \<open>The phase label and its tests\<close>

lemma normalizedPhase_string: "s \<noteq> [] \<Longrightarrow> normalizedPhase_of (JString s) = Inr s"
  by (simp add: normalizedPhase_of_def call_toString_def)

lemmas regex_eval =
  test_fat_fast_def test_psmf_def fat_fast_here_def psmf_here_def ci_match_def is_ws_def
  u16_Cons u16_Nil

lemma Keto_tests: "\<not> test_fat_fast (u16 ''Keto'')" "\<not> test_psmf (u16 ''Keto'')"
  by (simp_all add: regex_eval)

lemma PSMF_Fat_Fast_tests:
  "test_fat_fast (u16 ''PSMF Fat Fast'')" "test_psmf (u16 ''PSMF Fat Fast'')"
  by (simp_all add: regex_eval)

lemma search_mono: "search P s \<Longrightarrow> (\<And>t. P t \<Longrightarrow> Q t) \<Longrightarrow> search Q s"
  by (induction s) auto

lemma match_literal_Cons_Some:
  "match_literal (p # ps) s = Some r \<longleftrightarrow>
     (\<exists>c cs. s = c # cs \<and> ci_match p c \<and> match_literal ps cs = Some r)"
  by (cases s) auto

lemma space_is_ws: "ci_match CHR '' '' c \<Longrightarrow> is_ws c"
  by (auto simp: ci_match_def is_ws_def)

lemma f_not_ws: "ci_match CHR ''f'' c \<Longrightarrow> \<not> is_ws c"
  by (auto simp: ci_match_def is_ws_def)

text \<open>Where the token \<^verbatim>\<open>fat fast\<close> stands, the expression \<^verbatim>\<open>/fat\s*fast/i\<close> matches.\<close>

lemma fat_fast_token:
  assumes "match_literal ''fat fast'' t \<noteq> None"
  shows "fat_fast_here t"
proof -
  from assms obtain r where "match_literal ''fat fast'' t = Some r"
    by blast
  then obtain c1 c2 c3 c4 c5 cs where t: "t = c1 # c2 # c3 # c4 # c5 # cs"
    and m: "ci_match CHR ''f'' c1" "ci_match CHR ''a'' c2" "ci_match CHR ''t'' c3"
      "ci_match CHR '' '' c4" "ci_match CHR ''f'' c5"
    and rest: "match_literal ''ast'' cs = Some r"
    by (auto simp: match_literal_Cons_Some)
  from m(4,5) have "dropWhile is_ws (c4 # c5 # cs) = c5 # cs"
    by (simp add: space_is_ws f_not_ws)
  with m rest show ?thesis
    by (simp add: fat_fast_here_def t)
qed

lemma contains_fat_fast: "contains_ci ''fat fast'' s \<Longrightarrow> test_fat_fast s"
  unfolding contains_ci_def test_fat_fast_def
  by (erule search_mono) (rule fat_fast_token)

lemma contains_psmf: "contains_ci ''psmf'' s = test_psmf s"
proof -
  have "psmf_here = (\<lambda>t. match_literal ''psmf'' t \<noteq> None)"
    by (rule ext) (simp only: psmf_here_def)
  then show ?thesis
    by (simp only: contains_ci_def test_psmf_def)
qed

lemma contains_ci_nonempty: "contains_ci (p # ps) s \<Longrightarrow> s \<noteq> []"
  by (cases s) (simp_all add: contains_ci_def)

lemma contains_examples:
  "contains_ci ''fat fast'' (u16 ''PSMF Fat Fast'')"
  "contains_ci ''psmf'' (u16 ''PSMF Fat Fast'')"
  by (simp_all add: contains_ci_def ci_match_def u16_Cons u16_Nil)

subsection \<open>The rule list\<close>

lemma length_base_rules: "length (base_rules p h) = 5"
  by (simp add: base_rules_def)

lemma psmf_neq_fat_fast: "psmf_rule \<noteq> fat_fast_rule"
  by (simp add: psmf_rule_def fat_fast_rule_def u16_Cons)

lemma unshift_phase_rules_eq:
  "unshift_phase_rules ph rs =
     (if test_psmf ph then [psmf_rule] else [])
     @ (if test_fat_fast ph then [fat_fast_rule] else []) @ rs"
  by (simp add: unshift_phase_rules_def)

lemma push_doctor_note_Inr:
  assumes "push_doctor_note (default_to dn (JString [])) rs = Inr rs'"
  shows "if ToBoolean dn then (\<exists>s. ToString dn = Inr s \<and> rs' = rs @ [doctor_note_rule s])
         else rs' = rs"
  using assms
  by (auto simp: push_doctor_note_def ToBoolean_default_notes default_to_truthy
      and_then_Inr_iff split: if_splits)

lemma push_doctor_note_string:
  "s \<noteq> [] \<Longrightarrow> push_doctor_note (JString s) rs = Inr (rs @ [doctor_note_rule s])"
  by (simp add: push_doctor_note_def)

subsection \<open>Printing and reading numbers\<close>

lemmas candidate_eval = candidate_def reads_back_def pow10_def b64

lemma first_candidate_152: "first_candidate 152 3 (Suc 0 # 2 # 3 # ks) = (152, 3)"
proof -
  have "candidate 152 3 (Suc 0) = None" by (simp add: candidate_eval)
  moreover have "candidate 152 3 2 = None" by (simp add: candidate_eval)
  moreover have "candidate 152 3 3 = Some 152" by (simp add: candidate_eval)
  ultimately show ?thesis by simp
qed

lemma Number_toString_152: "Number_toString (Fin 152) = u16 ''152''"
proof -
  have "decimal_exponent 152 = 3"
    by (simp add: decimal_exponent_def digits_of.simps)
  then have "significand 152 = (152, 3)"
    by (simp add: significand_def first_candidate_152 strip_zeros.simps
        del: first_candidate.simps)
  then show ?thesis
    by (simp add: format_positive_def digits_of.simps u16_def)
qed

lemma first_candidate_144: "first_candidate 144 3 (Suc 0 # 2 # 3 # ks) = (144, 3)"
proof -
  have "candidate 144 3 (Suc 0) = None" by (simp add: candidate_eval)
  moreover have "candidate 144 3 2 = None" by (simp add: candidate_eval)
  moreover have "candidate 144 3 3 = Some 144" by (simp add: candidate_eval)
  ultimately show ?thesis by simp
qed

lemma Number_toString_144: "Number_toString (Fin 144) = u16 ''144''"
proof -
  have "decimal_exponent 144 = 3"
    by (simp add: decimal_exponent_def digits_of.simps)
  then have "significand 144 = (144, 3)"
    by (simp add: significand_def first_candidate_144 strip_zeros.simps
        del: first_candidate.simps)
  then show ?thesis
    by (simp add: format_positive_def digits_of.simps u16_def)
qed

lemma first_candidate_3_5: "first_candidate (7 / 2) 1 (Suc 0 # 2 # ks) = (35, 2)"
proof -
  have "candidate (7 / 2) 1 (Suc 0) = None" by (simp add: candidate_eval)
  moreover have "candidate (7 / 2) 1 2 = Some 35" by (simp add: candidate_eval)
  ultimately show ?thesis by simp
qed

lemma Number_toString_3_5: "Number_toString (Fin (7 / 2)) = u16 ''3.5''"
proof -
  have "decimal_exponent (7 / 2) = 1"
    by (simp add: decimal_exponent_def digits_of.simps)
  then have "significand (7 / 2) = (35, 1)"
    by (simp add: significand_def first_candidate_3_5 strip_zeros.simps
        del: first_candidate.simps)
  then show ?thesis
    by (simp add: format_positive_def digits_of.simps u16_def)
qed

lemma Number_toString_3: "Number_toString (Fin 3) = u16 ''3''"
proof -
  have "candidate 3 1 (Suc 0) = Some 3" by (simp add: candidate_eval)
  then have "first_candidate 3 1 (Suc 0 # ks) = (3, 1)" for ks by simp
  moreover have "decimal_exponent 3 = 1"
    by (simp add: decimal_exponent_def digits_of.simps)
  ultimately have "significand 3 = (3, 1)"
    by (simp add: significand_def strip_zeros.simps del: first_candidate.simps)
  then show ?thesis
    by (simp add: format_positive_def digits_of.simps u16_def)
qed

text \<open>
  The literal 0.1 is the binary64 value 0.1000000000000000055..., and one digit reads
  back as it: it is printed as \<^verbatim>\<open>0.1\<close>.
\<close>

lemma binary64_0_1: "binary64 (1 / 10) = Fin (3602879701896397 / 36028797018963968)"
  by (simp add: b64)

lemma Number_toString_0_1:
  "Number_toString (Fin (3602879701896397 / 36028797018963968)) = u16 ''0.1''"
proof -
  have "candidate (3602879701896397 / 36028797018963968) 0 (Suc 0) = Some 1"
    by (simp add: candidate_eval)
  then have "first_candidate (3602879701896397 / 36028797018963968) 0 (Suc 0 # ks) = (1, 1)"
    for ks by simp
  moreover have "decimal_exponent (3602879701896397 / 36028797018963968) = 0"
    by (simp add: decimal_exponent_def digits_of.simps)
  ultimately have "significand (3602879701896397 / 36028797018963968) = (1, 0)"
    by (simp add: significand_def strip_zeros.simps del: first_candidate.simps)
  then show ?thesis
    by (simp add: format_positive_def digits_of.simps u16_def)
qed

lemmas string_eval =
  StringToNumber_def trim_def is_ws_def parse_numeric_literal_def parse_non_decimal_def
  parse_unsigned_decimal_def parse_exponent_def is_digit_def digits_val_def pow10_def
  u16_Cons u16_Nil

lemma StringToNumber_abc: "StringToNumber (u16 ''abc'') = NaN"
  by (simp add: string_eval)

lemma StringToNumber_231: "StringToNumber (u16 ''231'') = Fin 231"
  by (simp add: string_eval) (simp add: b64)

text \<open>Beyond the largest binary64 value a literal reads as infinity, below the smallest as 0.\<close>

lemma StringToNumber_1e309: "StringToNumber (u16 ''1e309'') = PosInf"
  by (simp add: string_eval) (simp add: b64)

lemma StringToNumber_1e_324: "StringToNumber (u16 ''1e-324'') = Fin 0"
  by (simp add: string_eval) (simp add: b64)

lemma number_field_weight_abc:
  "number_field (JObject [(u16 ''weight'', JString (u16 ''abc''))]) ''weight'' d = Inr NaN"
  by (simp add: number_field_def get_property_JObject own_property_Cons nullish_def
      ToNumber_def StringToNumber_abc)

subsection \<open>Example calls\<close>

lemma base_rules_default:
  "base_rules (Fin 152) (Fin 3.5) =
     [u16 ''Hit '' @ [0x2265] @ u16 '' 152 g protein today (shakes + meal 3).'',
      u16 ''Hydration: 3.5 L by bedtime (500'' @ [0x2013] @ u16 ''750 mL every 2''
        @ [0x2013] @ u16 ''3h).'',
      u16 ''Stop last meal 5'' @ [0x2013] @ u16 ''6h before sleep.'',
      u16 ''Log symptoms (migraine, nausea, IBS) and meds.'',
      u16 ''Movement: 40 min baseline (80% low intensity, 20% HIIT) if energy ok.'']"
  by (simp add: base_rules_def Number_toString_152 Number_toString_3_5 en_dash_def
      u16_Cons u16_Nil del: Number_toString.simps)

text \<open>A call with a profile only: no protocol, no doctor notes.\<close>

lemma payload_plain:
  assumes "number_field up ''weight'' (binary64 255.3) = Inr w"
    and "number_field up ''goalWeight'' (Fin 190) = Inr g"
    and "up \<noteq> JUndefined"
  shows "buildMockAdvice_payload
           \<lparr>userProfile = up, protocol = JUndefined, doctorNotes = JUndefined\<rparr> =
         Inr \<lparr> hydrationL = hydrationL_of (delta_of w g), proteinG = proteinG_of g,
               phase = u16 ''Keto'',
               rules = base_rules (proteinG_of g) (hydrationL_of (delta_of w g)),
               notes = notes_text \<rparr>"
proof -
  from assms(3) have "default_to up (JObject []) = up"
    by (cases up) (simp_all add: default_to_def)
  then show ?thesis
    by (simp add: buildMockAdvice_payload_def assms(1,2) default_to_def
        normalizedPhase_string unshift_phase_rules_def Keto_tests push_doctor_note_def)
qed

lemma payload_default:
  "buildMockAdvice_payload
     \<lparr>userProfile = JObject [], protocol = JUndefined, doctorNotes = JUndefined\<rparr> =
   Inr \<lparr> hydrationL = Fin 3.5, proteinG = Fin 152, phase = u16 ''Keto'',
         rules = base_rules (Fin 152) (Fin 3.5), notes = notes_text \<rparr>"
  using payload_plain [OF number_field_absent number_field_absent]
  by (simp add: hydrationL_default proteinG_default)

lemma payload_goalWeight_only:
  "buildMockAdvice_payload
     \<lparr>userProfile = JObject [(u16 ''goalWeight'', JNumber (Fin g))], protocol = JUndefined,
      doctorNotes = JUndefined\<rparr> =
   Inr \<lparr> hydrationL = hydrationL_of (delta_of (binary64 255.3) (Fin g)),
         proteinG = proteinG_of (Fin g), phase = u16 ''Keto'',
         rules = base_rules (proteinG_of (Fin g))
                   (hydrationL_of (delta_of (binary64 255.3) (Fin g))),
         notes = notes_text \<rparr>"
  by (rule payload_plain) (simp_all add: number_field_goalWeight_only number_field_head)

lemma payload_weights:
  assumes "ToNumber (nullish v (JNumber (binary64 255.3))) = Inr w"
    and "ToNumber (nullish v' (JNumber (Fin 190))) = Inr g"
  shows "buildMockAdvice_payload
     \<lparr>userProfile = JObject [(u16 ''weight'', v), (u16 ''goalWeight'', v')],
      protocol = JUndefined, doctorNotes = JUndefined\<rparr> =
   Inr \<lparr> hydrationL = hydrationL_of (delta_of w g), proteinG = proteinG_of g,
         phase = u16 ''Keto'',
         rules = base_rules (proteinG_of g) (hydrationL_of (delta_of w g)),
         notes = notes_text \<rparr>"
  by (rule payload_plain)
    (simp_all add: number_field_of_field [OF get_weight_goalWeight(1)]
      number_field_of_field [OF get_weight_goalWeight(2)] assms)

lemma payload_notes_only:
  assumes "s \<noteq> []"
  shows "buildMockAdvice_payload
     \<lparr>userProfile = JUndefined, protocol = JUndefined, doctorNotes = JString s\<rparr> =
   Inr \<lparr> hydrationL = Fin 3.5, proteinG = Fin 152, phase = u16 ''Keto'',
         rules = base_rules (Fin 152) (Fin 3.5) @ [doctor_note_rule s],
         notes = notes_text \<rparr>"
  using assms
  by (simp add: buildMockAdvice_payload_def default_to_def number_field_absent
      hydrationL_default proteinG_default normalizedPhase_string unshift_phase_rules_def
      Keto_tests push_doctor_note_string)

lemma payload_both_phases:
  "buildMockAdvice_payload
     \<lparr>userProfile = JUndefined, protocol = JString (u16 ''PSMF Fat Fast''),
      doctorNotes = JUndefined\<rparr> =
   Inr \<lparr> hydrationL = Fin 3.5, proteinG = Fin 152, phase = u16 ''PSMF Fat Fast'',
         rules = psmf_rule # fat_fast_rule # base_rules (Fin 152) (Fin 3.5),
         notes = notes_text \<rparr>"
  by (simp add: buildMockAdvice_payload_def default_to_def number_field_absent
      hydrationL_default proteinG_default normalizedPhase_string unshift_phase_rules_def
      PSMF_Fat_Fast_tests push_doctor_note_def)

lemma payload_both_phases_notes:
  "buildMockAdvice_payload
     \<lparr>userProfile = JObject [], protocol = JString (u16 ''PSMF Fat Fast''),
      doctorNotes = JString (u16 ''ok'')\<rparr> =
   Inr \<lparr> hydrationL = Fin 3.5, proteinG = Fin 152, phase = u16 ''PSMF Fat Fast'',
         rules = psmf_rule # fat_fast_rule # base_rules (Fin 152) (Fin 3.5)
                   @ [doctor_note_rule (u16 ''ok'')],
         notes = notes_text \<rparr>"
  by (simp add: buildMockAdvice_payload_def default_to_def number_field_absent
      hydrationL_default proteinG_default normalizedPhase_string unshift_phase_rules_def
      PSMF_Fat_Fast_tests push_doctor_note_string)

text \<open>
  A call with the weight 200 and the goal weight 180, the label \<^verbatim>\<open>PSMF Fat Fast\<close> and
  the notes \<^verbatim>\<open>ok\<close>: the difference is 20, the product with 0.8 rounds to 144.
\<close>

lemma proteinG_180: "proteinG_of (Fin 180) = Fin 144"
  by (simp add: proteinG_of_def b64 Math_max_Fin Math_min_Fin)

lemma hydrationL_200_180: "hydrationL_of (delta_of (Fin 200) (Fin 180)) = Fin 3"
  by (simp add: hydrationL_of_delta js_sub_Fin js_gt_binary64_30) (simp add: b64)

lemma payload_200_180:
  "buildMockAdvice_payload
     \<lparr>userProfile = JObject [(u16 ''weight'', JNumber (Fin 200)),
                             (u16 ''goalWeight'', JNumber (Fin 180))],
      protocol = JString (u16 ''PSMF Fat Fast''), doctorNotes = JString (u16 ''ok'')\<rparr> =
   Inr \<lparr> hydrationL = Fin 3, proteinG = Fin 144, phase = u16 ''PSMF Fat Fast'',
         rules = psmf_rule # fat_fast_rule # base_rules (Fin 144) (Fin 3)
                   @ [doctor_note_rule (u16 ''ok'')],
         notes = notes_text \<rparr>"
proof -
  have "buildMockAdvice_payload
     \<lparr>userProfile = JObject [(u16 ''weight'', JNumber (Fin 200)),
                             (u16 ''goalWeight'', JNumber (Fin 180))],
      protocol = JString (u16 ''PSMF Fat Fast''), doctorNotes = JString (u16 ''ok'')\<rparr> =
   Inr \<lparr> hydrationL = hydrationL_of (delta_of (Fin 200) (Fin 180)),
         proteinG = proteinG_of (Fin 180), phase = u16 ''PSMF Fat Fast'',
         rules = psmf_rule # fat_fast_rule
                   # base_rules (proteinG_of (Fin 180))
                       (hydrationL_of (delta_of (Fin 200) (Fin 180)))
                   @ [doctor_note_rule (u16 ''ok'')],
         notes = notes_text \<rparr>"
    by (rule payload_InrI)
      (simp_all add: default_to_def number_field_of_number [OF get_weight_goalWeight(1)]
        number_field_of_number [OF get_weight_goalWeight(2)] normalizedPhase_string
        unshift_phase_rules_def PSMF_Fat_Fast_tests push_doctor_note_string)
  then show ?thesis
    by (simp only: proteinG_180 hydrationL_200_180)
qed

lemma rules_200_180:
  "psmf_rule # fat_fast_rule # base_rules (Fin 144) (Fin 3) @ [doctor_note_rule (u16 ''ok'')] =
     [u16 ''PSMF: 180'' @ [0x2013]
        @ u16 ''190 g protein, very low fat/carbs, electrolytes daily.'',
      u16 ''Fat Fast: 1000'' @ [0x2013] @ u16 ''1200 kcal, 85'' @ [0x2013]
        @ u16 ''90% fat, 3 days max.'',
      u16 ''Hit '' @ [0x2265] @ u16 '' 144 g protein today (shakes + meal 3).'',
      u16 ''Hydration: 3 L by bedtime (500'' @ [0x2013] @ u16 ''750 mL every 2''
        @ [0x2013] @ u16 ''3h).'',
      u16 ''Stop last meal 5'' @ [0x2013] @ u16 ''6h before sleep.'',
      u16 ''Log symptoms (migraine, nausea, IBS) and meds.'',
      u16 ''Movement: 40 min baseline (80% low intensity, 20% HIIT) if energy ok.'',
      u16 ''Note from doctor plan considered: ok...'']"
  by (simp add: base_rules_def psmf_rule_def fat_fast_rule_def doctor_note_rule_def
      Number_toString_144 Number_toString_3 en_dash_def u16_Cons u16_Nil
      del: Number_toString.simps)

text \<open>
  A data property named \<^verbatim>\<open>toString\<close> makes an object impossible to convert: such a
  weight makes the call throw.
\<close>

lemma own_toString_throws:
  "buildMockAdvice
     \<lparr>userProfile = JObject [(u16 ''weight'', JObject [(u16 ''toString'', JNumber (Fin 1))])],
      protocol = JUndefined, doctorNotes = JUndefined\<rparr> = Inl TypeError"
  by (simp add: buildMockAdvice_def buildMockAdvice_payload_def default_to_def
      number_field_def get_property_JObject own_property_Cons nullish_def ToNumber_def)

text \<open>The string the default call returns, character by character.\<close>

lemmas json_eval =
  JSON_stringify_def property_def QuoteJSONString_def stringify_number_def quote_unit_def
  is_high_surrogate_def is_low_surrogate_def

lemma default_json:
  "buildMockAdvice
     \<lparr>userProfile = JObject [], protocol = JUndefined, doctorNotes = JUndefined\<rparr> =
   Inr (u16 ''{\"hydrationL\":3.5,\"proteinG\":152,\"phase\":\"Keto\",\"rules\":[\"Hit ''
        @ [0x2265] @ u16 '' 152 g protein today (shakes + meal 3).\",''
        @ u16 ''\"Hydration: 3.5 L by bedtime (500'' @ [0x2013] @ u16 ''750 mL every 2''
        @ [0x2013] @ u16 ''3h).\",\"Stop last meal 5'' @ [0x2013]
        @ u16 ''6h before sleep.\",\"Log symptoms (migraine, nausea, IBS) and meds.\",''
        @ u16 ''\"Movement: 40 min baseline (80% low intensity, 20% HIIT) if energy ok.\"],''
        @ u16 ''\"notes\":\"Mock mode active. This advice is generated locally for ''
        @ u16 ''development. When API billing is ready, disable mock to use NeuroFuel GPT.\"}'')"
  by (simp add: buildMockAdvice_def payload_default base_rules_def en_dash_def json_eval
      notes_text_def u16_def Number_toString_152 [unfolded u16_def]
      Number_toString_3_5 [unfolded u16_def] del: Number_toString.simps)

subsection \<open>The call in the store\<close>

text \<open>
  Whatever the store holds, the call returns what the function of the arguments alone
  returns, and it touches no array but the one it has made.
\<close>

lemma call_result: "fst (buildMockAdvice_call st a) = buildMockAdvice a"
  by (simp add: buildMockAdvice_call_def buildMockAdvice_def buildMockAdvice_payload_def
      Let_def and_then_def array_literal_def array_unshift_def array_push_def
      push_doctor_note_def unshift_phase_rules_def split: sum.splits prod.splits)

lemma call_frame:
  "arrays (snd (buildMockAdvice_call st a)) =
     (arrays st)(next_ref st := arrays (snd (buildMockAdvice_call st a)) (next_ref st))"
  by (simp add: buildMockAdvice_call_def Let_def array_literal_def array_unshift_def
      array_push_def split: sum.splits prod.splits)

section \<open>The claims\<close>

subsection \<open>C1: the protein target\<close>

text \<open>
  C1, as amended. For every finite number \<^verbatim>\<open>goalWeight\<close> (a binary64 value) other than
  zero, \<^verbatim>\<open>proteinG\<close> is
  \<^verbatim>\<open>Math.round(0.8 * goalWeight)\<close> clamped to the interval from 120 to 230, the product
  being the binary64 one. For a \<^verbatim>\<open>goalWeight\<close> above 0 and up to 1000 that is: round the
  literal 0.8 to binary64, multiply, round the product to binary64, round that to the
  nearest integer (a tie upwards), clamp. A \<^verbatim>\<open>goalWeight\<close> of zero is falsy: line 30
  replaces it by 190 and \<^verbatim>\<open>proteinG\<close> is 152.
\<close>

theorem proteinG_clamp_round:
  assumes "buildMockAdvice_payload a = Inr out"
    and "get_property (default_to (userProfile a) (JObject [])) (u16 ''goalWeight'')
           = Inr (JNumber (Fin g))"
    and "is_binary64 g"
  shows "proteinG out =
           (if g = 0 then Fin 152
            else Math_min (Fin 230)
                   (Math_max (Fin 120) (Math_round (js_mul (binary64 0.8) (Fin g)))))
         \<and> (0 < g \<and> g \<le> 1000 \<longrightarrow>
              proteinG out =
                Fin (min 230 (max 120 (of_int \<lfloor>round64 (round64 0.8 * g) + 1 / 2\<rfloor>))))"
proof -
  from assms(1) obtain weight goalWeight normalizedPhase rules3 where
    gw: "number_field (default_to (userProfile a) (JObject [])) ''goalWeight'' (Fin 190)
           = Inr goalWeight"
    and out: "out = \<lparr> hydrationL = hydrationL_of (delta_of weight goalWeight),
            proteinG = proteinG_of goalWeight, phase = normalizedPhase,
            rules = rules3, notes = notes_text \<rparr>"
    by (rule payload_InrD)
  from gw number_field_of_number [OF assms(2)] have "goalWeight = Fin g"
    by simp
  with out have p: "proteinG out = proteinG_of (Fin g)"
    by simp
  show ?thesis
  proof (intro conjI impI)
    show "proteinG out =
           (if g = 0 then Fin 152
            else Math_min (Fin 230)
                   (Math_max (Fin 120) (Math_round (js_mul (binary64 0.8) (Fin g)))))"
      by (simp only: p proteinG_of_Fin)
  next
    assume "0 < g \<and> g \<le> 1000"
    then show "proteinG out =
        Fin (min 230 (max 120 (of_int \<lfloor>round64 (round64 0.8 * g) + 1 / 2\<rfloor>)))"
      by (simp only: p proteinG_of_range)
  qed
qed

text \<open>
  The theorem at the goal weights 190, 1000 and 0, and at 193.12499999999997, which is
  \<open>193.125 - 2 ^ -45\<close>: there the exact product is below 154.5, the binary64 product is
  154.5, and the target is 155.
\<close>

theorem proteinG_clamp_round_witness:
  "map_sum id proteinG (buildMockAdvice_payload
     \<lparr>userProfile = JObject [(u16 ''goalWeight'', JNumber (Fin 190))], protocol = JUndefined,
      doctorNotes = JUndefined\<rparr>) = Inr (Fin 152)
   \<and> map_sum id proteinG (buildMockAdvice_payload
     \<lparr>userProfile = JObject [(u16 ''goalWeight'', JNumber (Fin 1000))], protocol = JUndefined,
      doctorNotes = JUndefined\<rparr>) = Inr (Fin 230)
   \<and> map_sum id proteinG (buildMockAdvice_payload
     \<lparr>userProfile = JObject [(u16 ''goalWeight'', JNumber (Fin 0))], protocol = JUndefined,
      doctorNotes = JUndefined\<rparr>) = Inr (Fin 152)
   \<and> map_sum id proteinG (buildMockAdvice_payload
     \<lparr>userProfile =
        JObject [(u16 ''goalWeight'', JNumber (Fin (6794981859655679 / 35184372088832)))],
      protocol = JUndefined, doctorNotes = JUndefined\<rparr>) = Inr (Fin 155)
   \<and> is_binary64 (6794981859655679 / 35184372088832)
   \<and> round64 (round64 0.8 * (6794981859655679 / 35184372088832)) = 154.5
   \<and> round64 0.8 * (6794981859655679 / 35184372088832) < 154.5"
proof -
  have r: "is_binary64 190" "is_binary64 1000" "is_binary64 0"
    "is_binary64 (6794981859655679 / 35184372088832)"
    by (simp_all add: is_binary64_def b64)
  note w = proteinG_clamp_round [OF payload_goalWeight_only, unfolded args.simps,
      OF get_goalWeight_head]
  from w [OF r(1)] have "proteinG_of (Fin 190) = Fin 152"
    by (simp add: b64 Math_max_Fin Math_min_Fin)
  moreover from w [OF r(2)] have "proteinG_of (Fin 1000) = Fin 230"
    by (simp add: b64 Math_max_Fin Math_min_Fin)
  moreover from w [OF r(3)] have "proteinG_of (Fin 0) = Fin 152"
    by simp
  moreover from w [OF r(4)]
  have "proteinG_of (Fin (6794981859655679 / 35184372088832)) = Fin 155"
    by (simp add: b64 Math_max_Fin Math_min_Fin)
  moreover note r(4)
  moreover have "round64 (round64 0.8 * (6794981859655679 / 35184372088832)) = 154.5"
    and "round64 0.8 * (6794981859655679 / 35184372088832) < 154.5"
    by (simp_all add: b64)
  ultimately show ?thesis
    by (simp only: payload_goalWeight_only map_sum.simps id_apply advice.simps simp_thms)
qed

text \<open>
  The claim as it was stated fails at \<^verbatim>\<open>goalWeight = 0\<close>: the clamped rounding of
  \<^verbatim>\<open>0.8 * 0\<close> is 120, the function gives 152.
\<close>

theorem proteinG_goalWeight_zero:
  "map_sum id proteinG (buildMockAdvice_payload
     \<lparr>userProfile = JObject [(u16 ''goalWeight'', JNumber (Fin 0))], protocol = JUndefined,
      doctorNotes = JUndefined\<rparr>) = Inr (Fin 152)
   \<and> map_sum id proteinG (buildMockAdvice_payload
     \<lparr>userProfile = JObject [(u16 ''goalWeight'', JNumber (Fin 0))], protocol = JUndefined,
      doctorNotes = JUndefined\<rparr>)
     \<noteq> Inr (Fin (min 230 (max 120 (of_int (round (0.8 * (0 :: real)))))))"
  by (simp add: payload_goalWeight_only proteinG_of_Fin)

subsection \<open>C2: a label naming both phases\<close>

text \<open>
  C2, as amended. When the protocol label contains, ignoring case, both the token
  \<^verbatim>\<open>fat fast\<close> and the token \<^verbatim>\<open>psmf\<close>, the rule list starts with the PSMF rule, then
  the fat-fast rule, then the five base rules: the PSMF rule is unshifted last and so
  stands first. The list has 7 elements without doctor notes and 8 with them.
\<close>

theorem both_phases_psmf_first:
  assumes "protocol a = JString s"
    and "contains_ci ''fat fast'' s" and "contains_ci ''psmf'' s"
    and "buildMockAdvice_payload a = Inr out"
  shows "take 7 (rules out) =
           psmf_rule # fat_fast_rule # base_rules (proteinG out) (hydrationL out)
         \<and> length (rules out) = (if ToBoolean (doctorNotes a) then 8 else 7)"
proof -
  from assms(4) obtain weight goalWeight normalizedPhase rules3 where
    ph: "normalizedPhase_of (default_to (protocol a) (JString (u16 ''Keto'')))
           = Inr normalizedPhase"
    and push: "push_doctor_note (default_to (doctorNotes a) (JString []))
       (unshift_phase_rules normalizedPhase
         (base_rules (proteinG_of goalWeight) (hydrationL_of (delta_of weight goalWeight))))
       = Inr rules3"
    and out: "out = \<lparr> hydrationL = hydrationL_of (delta_of weight goalWeight),
            proteinG = proteinG_of goalWeight, phase = normalizedPhase,
            rules = rules3, notes = notes_text \<rparr>"
    by (rule payload_InrD)
  from assms(2) have "s \<noteq> []"
    by (rule contains_ci_nonempty)
  with ph assms(1) have "normalizedPhase = s"
    by (simp add: default_to_JString normalizedPhase_string)
  with assms(2,3) have tests: "test_fat_fast normalizedPhase" "test_psmf normalizedPhase"
    by (simp_all add: contains_fat_fast contains_psmf)
  show ?thesis
    using push_doctor_note_Inr [OF push]
    by (cases "ToBoolean (doctorNotes a)")
      (auto simp: out unshift_phase_rules_eq tests length_base_rules)
qed

text \<open>The theorem at the label \<^verbatim>\<open>PSMF Fat Fast\<close>, with the doctor notes \<^verbatim>\<open>ok\<close>.\<close>

theorem both_phases_psmf_first_witness:
  "contains_ci ''fat fast'' (u16 ''PSMF Fat Fast'')
   \<and> contains_ci ''psmf'' (u16 ''PSMF Fat Fast'')
   \<and> buildMockAdvice_payload
       \<lparr>userProfile = JObject [], protocol = JString (u16 ''PSMF Fat Fast''),
        doctorNotes = JString (u16 ''ok'')\<rparr> =
     Inr \<lparr> hydrationL = Fin 3.5, proteinG = Fin 152, phase = u16 ''PSMF Fat Fast'',
           rules = psmf_rule # fat_fast_rule # base_rules (Fin 152) (Fin 3.5)
                     @ [doctor_note_rule (u16 ''ok'')],
           notes = notes_text \<rparr>
   \<and> take 7 (psmf_rule # fat_fast_rule # base_rules (Fin 152) (Fin 3.5)
               @ [doctor_note_rule (u16 ''ok'')]) =
       psmf_rule # fat_fast_rule # base_rules (Fin 152) (Fin 3.5)
   \<and> length (psmf_rule # fat_fast_rule # base_rules (Fin 152) (Fin 3.5)
               @ [doctor_note_rule (u16 ''ok'')]) = 8"
  using both_phases_psmf_first [OF _ contains_examples payload_both_phases_notes]
    contains_examples payload_both_phases_notes
  by simp

text \<open>
  The claim as it was stated fails at the label \<^verbatim>\<open>PSMF Fat Fast\<close>: of the 7 rules the
  first is the PSMF rule and the second the fat-fast rule, not the other way round.
\<close>

theorem fat_fast_not_first:
  "map_sum id (\<lambda>r. (length (rules r), rules r ! 0, rules r ! 1))
     (buildMockAdvice_payload
       \<lparr>userProfile = JUndefined, protocol = JString (u16 ''PSMF Fat Fast''),
        doctorNotes = JUndefined\<rparr>) = Inr (7, psmf_rule, fat_fast_rule)
   \<and> psmf_rule \<noteq> fat_fast_rule"
  by (simp add: payload_both_phases length_base_rules psmf_neq_fat_fast)

subsection \<open>C3: inputs on which the function throws\<close>

text \<open>
  C3. The claim: for every input, also a \<^verbatim>\<open>null\<close> profile, the function returns a
  payload and throws nothing. The code: the parameter default \<^verbatim>\<open>userProfile = {}\<close>
  replaces \<^verbatim>\<open>undefined\<close> only, so with \<^verbatim>\<open>userProfile: null\<close> the property read
  \<^verbatim>\<open>userProfile.weight\<close> at line 25 throws a \<^verbatim>\<open>TypeError\<close>. (Line 110 of the same file
  reads the profile as \<^verbatim>\<open>userProfile ?? {}\<close>, which does cover \<^verbatim>\<open>null\<close>.)
\<close>

theorem null_userProfile_throws:
  "buildMockAdvice \<lparr>userProfile = JNull, protocol = JUndefined, doctorNotes = JUndefined\<rparr>
     = Inl TypeError"
  by (simp add: buildMockAdvice_def buildMockAdvice_payload_def default_to_def
      number_field_def get_property_def)

subsection \<open>C4: the hydration target\<close>

text \<open>
  C4. Whenever the function returns, with \<open>v\<close> and \<open>v'\<close> the \<^verbatim>\<open>weight\<close> and
  \<^verbatim>\<open>goalWeight\<close> fields of the profile and \<open>w\<close> and \<open>g\<close> the numbers lines 25 and 26
  make of them: \<^verbatim>\<open>hydrationL\<close> is 3 or 3.5; it is 3.5 exactly when \<^verbatim>\<open>w - g > 30\<close> holds
  in JavaScript; and it lies between 3 and 5. For two finite numbers (binary64 values)
  the JavaScript difference is the exact difference rounded to binary64: \<^verbatim>\<open>hydrationL\<close> is 3.5 exactly
  when that exceeds 30, and then the exact difference exceeds 30 as well.
\<close>

theorem hydrationL_values:
  assumes "buildMockAdvice_payload a = Inr out"
    and "get_property (default_to (userProfile a) (JObject [])) (u16 ''weight'') = Inr v"
    and "get_property (default_to (userProfile a) (JObject [])) (u16 ''goalWeight'') = Inr v'"
    and "ToNumber (nullish v (JNumber (binary64 255.3))) = Inr w"
    and "ToNumber (nullish v' (JNumber (Fin 190))) = Inr g"
  shows "hydrationL out \<in> {Fin 3, Fin 3.5}
         \<and> (hydrationL out = Fin 3.5 \<longleftrightarrow> js_gt (js_sub w g) (Fin 30))
         \<and> (\<forall>x y. v = JNumber (Fin x) \<and> v' = JNumber (Fin y)
                  \<and> is_binary64 x \<and> is_binary64 y \<longrightarrow>
               (hydrationL out = Fin 3.5 \<longleftrightarrow> 30 < round64 (x - y))
               \<and> (hydrationL out = Fin 3.5 \<longrightarrow> 30 < x - y))
         \<and> (\<exists>h. hydrationL out = Fin h \<and> 3 \<le> h \<and> h \<le> 5)"
proof -
  from assms(1) obtain weight goalWeight normalizedPhase rules3 where
    "number_field (default_to (userProfile a) (JObject [])) ''weight'' (binary64 255.3)
       = Inr weight"
    "number_field (default_to (userProfile a) (JObject [])) ''goalWeight'' (Fin 190)
       = Inr goalWeight"
    and out: "out = \<lparr> hydrationL = hydrationL_of (delta_of weight goalWeight),
            proteinG = proteinG_of goalWeight, phase = normalizedPhase,
            rules = rules3, notes = notes_text \<rparr>"
    by (rule payload_InrD)
  with assms(4,5) have "weight = w" "goalWeight = g"
    by (simp_all add: number_field_of_field [OF assms(2)] number_field_of_field [OF assms(3)])
  with out have h: "hydrationL out = (if js_gt (js_sub w g) (Fin 30) then Fin 3.5 else Fin 3)"
    by (simp add: hydrationL_of_delta)
  have "\<exists>h'. hydrationL out = Fin h' \<and> 3 \<le> h' \<and> h' \<le> 5"
  proof (cases "js_gt (js_sub w g) (Fin 30)")
    case True
    with h have "hydrationL out = Fin 3.5 \<and> (3::real) \<le> 3.5 \<and> (3.5::real) \<le> 5"
      by simp
    then show ?thesis by blast
  next
    case False
    with h have "hydrationL out = Fin 3 \<and> (3::real) \<le> 3 \<and> (3::real) \<le> 5"
      by simp
    then show ?thesis by blast
  qed
  moreover have "hydrationL out \<in> {Fin 3, Fin 3.5}"
    by (simp add: h)
  moreover have iff: "hydrationL out = Fin 3.5 \<longleftrightarrow> js_gt (js_sub w g) (Fin 30)"
    by (simp add: h)
  moreover have
    "(hydrationL out = Fin 3.5 \<longleftrightarrow> 30 < round64 (x - y))
       \<and> (hydrationL out = Fin 3.5 \<longrightarrow> 30 < x - y)"
    if "v = JNumber (Fin x) \<and> v' = JNumber (Fin y) \<and> is_binary64 x \<and> is_binary64 y"
    for x y
  proof -
    from that assms(4,5) have "w = Fin x" "g = Fin y"
      by (simp_all add: nullish_def ToNumber_def)
    with iff have "hydrationL out = Fin 3.5 \<longleftrightarrow> 30 < round64 (x - y)"
      by (simp add: js_sub_Fin js_gt_binary64_30)
    then show ?thesis
      by (auto dest: round64_gt_30)
  qed
  ultimately show ?thesis
    by blast
qed

text \<open>
  The theorem at the weight 31 with the goal weight 0.9999999999999999, which is
  \<open>1 - 2 ^ -53\<close>: the exact difference is above 30 but rounds to 30, and
  \<^verbatim>\<open>hydrationL\<close> is 3. And at the weight \<^verbatim>\<open>"231"\<close>, a string, with the goal weight 200:
  the difference is 31 and \<^verbatim>\<open>hydrationL\<close> is 3.5.
\<close>

theorem hydrationL_values_witness:
  "map_sum id hydrationL (buildMockAdvice_payload
     \<lparr>userProfile =
        JObject [(u16 ''weight'', JNumber (Fin 31)),
                 (u16 ''goalWeight'', JNumber (Fin (9007199254740991 / 9007199254740992)))],
      protocol = JUndefined, doctorNotes = JUndefined\<rparr>) = Inr (Fin 3)
   \<and> is_binary64 31 \<and> is_binary64 (9007199254740991 / 9007199254740992)
   \<and> round64 (31 - 9007199254740991 / 9007199254740992) = 30
   \<and> (30 :: real) < 31 - 9007199254740991 / 9007199254740992
   \<and> map_sum id hydrationL (buildMockAdvice_payload
     \<lparr>userProfile =
        JObject [(u16 ''weight'', JString (u16 ''231'')),
                 (u16 ''goalWeight'', JNumber (Fin 200))],
      protocol = JUndefined, doctorNotes = JUndefined\<rparr>) = Inr (Fin 3.5)
   \<and> ToNumber (JString (u16 ''231'')) = Inr (Fin 231)"
proof -
  let ?c = "9007199254740991 / 9007199254740992 :: real"
  have r: "round64 (31 - ?c) = 30" and "30 < 31 - ?c"
    by (simp_all add: b64)
  have n1: "ToNumber (nullish (JNumber (Fin 31)) (JNumber (binary64 255.3))) = Inr (Fin 31)"
    and n2: "ToNumber (nullish (JNumber (Fin ?c)) (JNumber (Fin 190))) = Inr (Fin ?c)"
    and n3: "ToNumber (nullish (JString (u16 ''231'')) (JNumber (binary64 255.3)))
               = Inr (Fin 231)"
    and n4: "ToNumber (nullish (JNumber (Fin 200)) (JNumber (Fin 190))) = Inr (Fin 200)"
    and n5: "ToNumber (JString (u16 ''231'')) = Inr (Fin 231)"
    by (simp_all add: nullish_def ToNumber_def StringToNumber_231)
  have r': "round64 (231 - 200) = 31"
    by (simp add: b64)
  have b: "is_binary64 31" "is_binary64 ?c" "is_binary64 231" "is_binary64 200"
    by (simp_all add: is_binary64_def b64)
  note t1 = hydrationL_values [OF payload_weights [OF n1 n2], unfolded args.simps
      default_to_JObject, OF get_weight_goalWeight n1 n2]
  note t2 = hydrationL_values [OF payload_weights [OF n3 n4], unfolded args.simps
      default_to_JObject, OF get_weight_goalWeight n3 n4]
  from t1 r b have "hydrationL_of (delta_of (Fin 31) (Fin ?c)) = Fin 3"
    by (auto simp: js_sub_Fin js_gt_binary64_30)
  moreover from t2 r' have "hydrationL_of (delta_of (Fin 231) (Fin 200)) = Fin 3.5"
    by (auto simp: js_sub_Fin js_gt_binary64_30)
  ultimately show ?thesis
    using r \<open>30 < 31 - ?c\<close> n5 b(1,2)
    by (simp only: payload_weights [OF n1 n2] payload_weights [OF n3 n4] map_sum.simps id_apply
        advice.simps simp_thms)
qed

subsection \<open>C5: absent and non-numeric weights\<close>

text \<open>
  C5, as amended. For every profile the function can read, a \<^verbatim>\<open>weight\<close> or
  \<^verbatim>\<open>goalWeight\<close> that is absent (\<^verbatim>\<open>undefined\<close>) or \<^verbatim>\<open>null\<close> counts as its default,
  255.3 or 190: the output is the output for the profile that carries, for each of the
  two fields, the value \<^verbatim>\<open>field ?? default\<close>. (A field that is present and not a
  number is converted by \<^verbatim>\<open>Number\<close>, not replaced.)
\<close>

theorem nullish_fields_take_defaults:
  assumes "get_property (default_to (userProfile a) (JObject [])) (u16 ''weight'') = Inr v"
    and "get_property (default_to (userProfile a) (JObject [])) (u16 ''goalWeight'') = Inr v'"
  shows "buildMockAdvice
           (a\<lparr>userProfile :=
                JObject [(u16 ''weight'', nullish v (JNumber (binary64 255.3))),
                         (u16 ''goalWeight'', nullish v' (JNumber (Fin 190)))]\<rparr>)
         = buildMockAdvice a"
  by (simp add: buildMockAdvice_def buildMockAdvice_payload_def Let_def
      number_field_explicit [OF assms] default_to_JObject)

text \<open>The theorem at a profile with no \<^verbatim>\<open>weight\<close> and a \<^verbatim>\<open>null\<close> \<^verbatim>\<open>goalWeight\<close>.\<close>

theorem nullish_fields_take_defaults_witness:
  "buildMockAdvice
     \<lparr>userProfile = JObject [(u16 ''weight'', JNumber (binary64 255.3)),
                             (u16 ''goalWeight'', JNumber (Fin 190))],
      protocol = JUndefined, doctorNotes = JUndefined\<rparr>
   = buildMockAdvice
       \<lparr>userProfile = JObject [(u16 ''goalWeight'', JNull)], protocol = JUndefined,
        doctorNotes = JUndefined\<rparr>"
proof -
  have "get_property (default_to (JObject [(u16 ''goalWeight'', JNull)]) (JObject []))
          (u16 ''weight'') = Inr JUndefined"
    and "get_property (default_to (JObject [(u16 ''goalWeight'', JNull)]) (JObject []))
          (u16 ''goalWeight'') = Inr JNull"
    by (simp_all add: default_to_def get_property_JObject own_property_Cons own_property_Nil
        weight_neq_goalWeight)
  from nullish_fields_take_defaults
    [of "\<lparr>userProfile = JObject [(u16 ''goalWeight'', JNull)], protocol = JUndefined,
         doctorNotes = JUndefined\<rparr>", unfolded args.simps, OF this]
  show ?thesis
    by (simp add: nullish_def)
qed

text \<open>
  The claim as it was stated fails at the non-numeric weight \<^verbatim>\<open>"abc"\<close>: \<^verbatim>\<open>Number\<close>
  makes it \<^verbatim>\<open>NaN\<close>, no comparison with \<^verbatim>\<open>NaN\<close> holds, and \<^verbatim>\<open>hydrationL\<close> is 3, where
  the profile with the defaults written out gets 3.5.
\<close>

theorem non_numeric_weight_differs:
  "map_sum id hydrationL (buildMockAdvice_payload
     \<lparr>userProfile = JObject [(u16 ''weight'', JString (u16 ''abc''))], protocol = JUndefined,
      doctorNotes = JUndefined\<rparr>) = Inr (Fin 3)
   \<and> map_sum id hydrationL (buildMockAdvice_payload
     \<lparr>userProfile = JObject [(u16 ''weight'', JNumber (binary64 255.3)),
                             (u16 ''goalWeight'', JNumber (Fin 190))],
      protocol = JUndefined, doctorNotes = JUndefined\<rparr>) = Inr (Fin 3.5)"
proof -
  have "ToNumber (nullish (JNumber (binary64 255.3)) (JNumber (binary64 255.3)))
          = Inr (binary64 255.3)"
    and "ToNumber (nullish (JNumber (Fin 190)) (JNumber (Fin 190))) = Inr (Fin 190)"
    by (simp_all add: nullish_def ToNumber_def)
  then show ?thesis
    by (simp add: payload_plain [OF number_field_weight_abc number_field_weight_only]
        payload_weights hydrationL_NaN_weight hydrationL_default)
qed

subsection \<open>C6: the default call\<close>

text \<open>
  C6. A call with an empty profile, no protocol and no doctor notes yields
  \<^verbatim>\<open>proteinG = 152\<close>, \<^verbatim>\<open>hydrationL = 3.5\<close>, \<^verbatim>\<open>phase = "Keto"\<close> and exactly the five base
  rules.
\<close>

theorem default_call:
  "buildMockAdvice_payload
     \<lparr>userProfile = JObject [], protocol = JUndefined, doctorNotes = JUndefined\<rparr> =
   Inr \<lparr> hydrationL = Fin 3.5, proteinG = Fin 152, phase = u16 ''Keto'',
         rules =
           [u16 ''Hit '' @ [0x2265] @ u16 '' 152 g protein today (shakes + meal 3).'',
            u16 ''Hydration: 3.5 L by bedtime (500'' @ [0x2013] @ u16 ''750 mL every 2''
              @ [0x2013] @ u16 ''3h).'',
            u16 ''Stop last meal 5'' @ [0x2013] @ u16 ''6h before sleep.'',
            u16 ''Log symptoms (migraine, nausea, IBS) and meds.'',
            u16 ''Movement: 40 min baseline (80% low intensity, 20% HIIT) if energy ok.''],
         notes = notes_text \<rparr>"
proof -
  have "buildMockAdvice_payload
          \<lparr>userProfile = JObject [], protocol = JUndefined, doctorNotes = JUndefined\<rparr> =
        Inr \<lparr> hydrationL = Fin 3.5, proteinG = Fin 152, phase = u16 ''Keto'',
              rules = base_rules (Fin 152) (Fin 3.5), notes = notes_text \<rparr>"
    by (rule payload_default)
  then show ?thesis
    by (simp only: base_rules_default)
qed

subsection \<open>C7: the layout of the rule list\<close>

text \<open>
  C7. Whenever the function returns, its rule list is: the PSMF rule if
  \<^verbatim>\<open>/psmf/i\<close> matches the phase, then the fat-fast rule if \<^verbatim>\<open>/fat\s*fast/i\<close> matches
  it, then the five baseline rules in their fixed order (the first two with
  \<^verbatim>\<open>proteinG\<close> and \<^verbatim>\<open>hydrationL\<close> printed in them), then the doctor-note rule exactly
  when the notes are truthy (for a string: not empty), and nothing else.
\<close>

theorem rules_layout:
  assumes "buildMockAdvice_payload a = Inr out"
  shows "\<exists>post. rules out =
            (if test_psmf (phase out)
             then [u16 ''PSMF: 180'' @ [0x2013]
                     @ u16 ''190 g protein, very low fat/carbs, electrolytes daily.'']
             else [])
            @ (if test_fat_fast (phase out)
               then [u16 ''Fat Fast: 1000'' @ [0x2013] @ u16 ''1200 kcal, 85'' @ [0x2013]
                       @ u16 ''90% fat, 3 days max.'']
               else [])
            @ [u16 ''Hit '' @ [0x2265] @ u16 '' '' @ Number_toString (proteinG out)
                 @ u16 '' g protein today (shakes + meal 3).'',
               u16 ''Hydration: '' @ Number_toString (hydrationL out)
                 @ u16 '' L by bedtime (500'' @ [0x2013] @ u16 ''750 mL every 2''
                 @ [0x2013] @ u16 ''3h).'',
               u16 ''Stop last meal 5'' @ [0x2013] @ u16 ''6h before sleep.'',
               u16 ''Log symptoms (migraine, nausea, IBS) and meds.'',
               u16 ''Movement: 40 min baseline (80% low intensity, 20% HIIT) if energy ok.'']
            @ post
         \<and> (if ToBoolean (doctorNotes a)
            then \<exists>s. ToString (doctorNotes a) = Inr s
                   \<and> post = [u16 ''Note from doctor plan considered: '' @ take 120 s
                               @ u16 ''...'']
            else post = [])"
proof -
  from assms obtain weight goalWeight normalizedPhase rules3 where
    push: "push_doctor_note (default_to (doctorNotes a) (JString []))
       (unshift_phase_rules normalizedPhase
         (base_rules (proteinG_of goalWeight) (hydrationL_of (delta_of weight goalWeight))))
       = Inr rules3"
    and out: "out = \<lparr> hydrationL = hydrationL_of (delta_of weight goalWeight),
            proteinG = proteinG_of goalWeight, phase = normalizedPhase,
            rules = rules3, notes = notes_text \<rparr>"
    by (rule payload_InrD)
  show ?thesis
    using push_doctor_note_Inr [OF push]
    by (cases "ToBoolean (doctorNotes a)")
      (auto simp: out unshift_phase_rules_eq base_rules_def psmf_rule_def fat_fast_rule_def
        doctor_note_rule_def en_dash_def)
qed

text \<open>
  The theorem at the weight 200 and the goal weight 180, the label \<^verbatim>\<open>PSMF Fat Fast\<close> and
  the doctor notes \<^verbatim>\<open>ok\<close>: eight rules, every one written out.
\<close>

theorem rules_layout_witness:
  "map_sum id rules (buildMockAdvice_payload
     \<lparr>userProfile = JObject [(u16 ''weight'', JNumber (Fin 200)),
                             (u16 ''goalWeight'', JNumber (Fin 180))],
      protocol = JString (u16 ''PSMF Fat Fast''), doctorNotes = JString (u16 ''ok'')\<rparr>) =
   Inr [u16 ''PSMF: 180'' @ [0x2013]
          @ u16 ''190 g protein, very low fat/carbs, electrolytes daily.'',
        u16 ''Fat Fast: 1000'' @ [0x2013] @ u16 ''1200 kcal, 85'' @ [0x2013]
          @ u16 ''90% fat, 3 days max.'',
        u16 ''Hit '' @ [0x2265] @ u16 '' 144 g protein today (shakes + meal 3).'',
        u16 ''Hydration: 3 L by bedtime (500'' @ [0x2013] @ u16 ''750 mL every 2''
          @ [0x2013] @ u16 ''3h).'',
        u16 ''Stop last meal 5'' @ [0x2013] @ u16 ''6h before sleep.'',
        u16 ''Log symptoms (migraine, nausea, IBS) and meds.'',
        u16 ''Movement: 40 min baseline (80% low intensity, 20% HIIT) if energy ok.'',
        u16 ''Note from doctor plan considered: ok...'']"
proof -
  from rules_layout [OF payload_200_180]
  have "rules \<lparr> hydrationL = Fin 3, proteinG = Fin 144, phase = u16 ''PSMF Fat Fast'',
         rules = psmf_rule # fat_fast_rule # base_rules (Fin 144) (Fin 3)
                   @ [doctor_note_rule (u16 ''ok'')],
         notes = notes_text \<rparr> =
        psmf_rule # fat_fast_rule # base_rules (Fin 144) (Fin 3)
          @ [doctor_note_rule (u16 ''ok'')]"
    by simp
  then show ?thesis
    by (simp only: payload_200_180 map_sum.simps id_apply rules_200_180)
qed

subsection \<open>C8: long doctor notes\<close>

text \<open>
  C8. For doctor notes that are a string of more than 120 code units, whenever the
  function returns, the last rule is the doctor-note rule and its note text is the
  first 120 code units of the notes followed by three full stops.
\<close>

theorem long_doctor_notes_cut:
  assumes "doctorNotes a = JString s" and "120 < length s"
    and "buildMockAdvice_payload a = Inr out"
  shows "rules out \<noteq> []
         \<and> last (rules out) =
             u16 ''Note from doctor plan considered: '' @ take 120 s @ u16 ''...''
         \<and> length (take 120 s) = 120"
proof -
  from assms(3) obtain weight goalWeight normalizedPhase rules3 where
    push: "push_doctor_note (default_to (doctorNotes a) (JString []))
       (unshift_phase_rules normalizedPhase
         (base_rules (proteinG_of goalWeight) (hydrationL_of (delta_of weight goalWeight))))
       = Inr rules3"
    and out: "out = \<lparr> hydrationL = hydrationL_of (delta_of weight goalWeight),
            proteinG = proteinG_of goalWeight, phase = normalizedPhase,
            rules = rules3, notes = notes_text \<rparr>"
    by (rule payload_InrD)
  from assms(1,2) have "ToBoolean (doctorNotes a)" "ToString (doctorNotes a) = Inr s"
    by auto
  with push_doctor_note_Inr [OF push] assms(2) show ?thesis
    by (auto simp: out doctor_note_rule_def)
qed

text \<open>The theorem at notes of 130 letters \<^verbatim>\<open>a\<close>: the rule keeps 120 of them.\<close>

theorem long_doctor_notes_cut_witness:
  "120 < length (replicate 130 (0x61 :: 16 word))
   \<and> buildMockAdvice_payload
       \<lparr>userProfile = JUndefined, protocol = JUndefined,
        doctorNotes = JString (replicate 130 0x61)\<rparr> =
     Inr \<lparr> hydrationL = Fin 3.5, proteinG = Fin 152, phase = u16 ''Keto'',
           rules = base_rules (Fin 152) (Fin 3.5) @ [doctor_note_rule (replicate 130 0x61)],
           notes = notes_text \<rparr>
   \<and> last (base_rules (Fin 152) (Fin 3.5) @ [doctor_note_rule (replicate 130 0x61)]) =
       u16 ''Note from doctor plan considered: '' @ replicate 120 0x61 @ u16 ''...''"
proof -
  have ne: "replicate 130 (0x61 :: 16 word) \<noteq> []"
    and len: "120 < length (replicate 130 (0x61 :: 16 word))"
    by simp_all
  from long_doctor_notes_cut [OF _ len payload_notes_only [OF ne]] payload_notes_only [OF ne]
  show ?thesis
    by simp
qed

subsection \<open>C9: the same input gives the same output\<close>

text \<open>
  C9. The call runs in a store that earlier calls have written to. Two calls with the
  same arguments return the same string (or both throw), the second starting from the
  store the first has left, and so do two calls from any two stores; and a call changes
  no array of the store but the one it has made itself.
\<close>

theorem repeated_call_same_output:
  "fst (buildMockAdvice_call (snd (buildMockAdvice_call st a)) a)
     = fst (buildMockAdvice_call st a)
   \<and> fst (buildMockAdvice_call st' a) = fst (buildMockAdvice_call st a)
   \<and> arrays (snd (buildMockAdvice_call st a)) =
       (arrays st)(next_ref st := arrays (snd (buildMockAdvice_call st a)) (next_ref st))"
proof (intro conjI)
  show "fst (buildMockAdvice_call (snd (buildMockAdvice_call st a)) a)
          = fst (buildMockAdvice_call st a)"
    by (simp only: call_result)
  show "fst (buildMockAdvice_call st' a) = fst (buildMockAdvice_call st a)"
    by (simp only: call_result)
  show "arrays (snd (buildMockAdvice_call st a)) =
          (arrays st)(next_ref st := arrays (snd (buildMockAdvice_call st a)) (next_ref st))"
    by (rule call_frame)
qed

text \<open>
  The theorem at two default calls in a row, starting from the empty store: the string
  both return.
\<close>

theorem repeated_call_same_output_witness:
  "fst (buildMockAdvice_call
         (snd (buildMockAdvice_call \<lparr>arrays = \<lambda>r. [], next_ref = 0\<rparr>
                \<lparr>userProfile = JObject [], protocol = JUndefined, doctorNotes = JUndefined\<rparr>))
         \<lparr>userProfile = JObject [], protocol = JUndefined, doctorNotes = JUndefined\<rparr>) =
   Inr (u16 ''{\"hydrationL\":3.5,\"proteinG\":152,\"phase\":\"Keto\",\"rules\":[\"Hit ''
        @ [0x2265] @ u16 '' 152 g protein today (shakes + meal 3).\",''
        @ u16 ''\"Hydration: 3.5 L by bedtime (500'' @ [0x2013] @ u16 ''750 mL every 2''
        @ [0x2013] @ u16 ''3h).\",\"Stop last meal 5'' @ [0x2013]
        @ u16 ''6h before sleep.\",\"Log symptoms (migraine, nausea, IBS) and meds.\",''
        @ u16 ''\"Movement: 40 min baseline (80% low intensity, 20% HIIT) if energy ok.\"],''
        @ u16 ''\"notes\":\"Mock mode active. This advice is generated locally for ''
        @ u16 ''development. When API billing is ready, disable mock to use NeuroFuel GPT.\"}'')"
proof -
  let ?st = "\<lparr>arrays = \<lambda>r. [], next_ref = 0\<rparr>"
  let ?a = "\<lparr>userProfile = JObject [], protocol = JUndefined, doctorNotes = JUndefined\<rparr>"
  have "fst (buildMockAdvice_call (snd (buildMockAdvice_call ?st ?a)) ?a)
          = fst (buildMockAdvice_call ?st ?a)"
    using repeated_call_same_output [of ?st ?a ?st] by (rule conjunct1)
  then show ?thesis
    by (simp only: call_result default_json)
qed

subsection \<open>C10: the three full stops\<close>

text \<open>
  C10. For every truthy value of the doctor notes, whenever the function returns, the
  last rule is the doctor-note rule and it ends with three full stops after (at most)
  120 code units of the notes' string: also when the string has 120 code units or fewer
  and nothing was cut.
\<close>

theorem doctor_note_ellipsis_always:
  assumes "ToBoolean (doctorNotes a)" and "buildMockAdvice_payload a = Inr out"
  shows "\<exists>s. ToString (doctorNotes a) = Inr s
           \<and> rules out \<noteq> []
           \<and> last (rules out) =
               u16 ''Note from doctor plan considered: '' @ take 120 s @ u16 ''...''
           \<and> (length s \<le> 120 \<longrightarrow>
                last (rules out) = u16 ''Note from doctor plan considered: '' @ s @ u16 ''...'')"
proof -
  from assms(2) obtain weight goalWeight normalizedPhase rules3 where
    push: "push_doctor_note (default_to (doctorNotes a) (JString []))
       (unshift_phase_rules normalizedPhase
         (base_rules (proteinG_of goalWeight) (hydrationL_of (delta_of weight goalWeight))))
       = Inr rules3"
    and out: "out = \<lparr> hydrationL = hydrationL_of (delta_of weight goalWeight),
            proteinG = proteinG_of goalWeight, phase = normalizedPhase,
            rules = rules3, notes = notes_text \<rparr>"
    by (rule payload_InrD)
  from push_doctor_note_Inr [OF push] assms(1) show ?thesis
    by (auto simp: out doctor_note_rule_def)
qed

text \<open>The theorem at the notes \<^verbatim>\<open>ok\<close>, two code units long.\<close>

theorem doctor_note_ellipsis_always_witness:
  "ToBoolean (JString (u16 ''ok''))
   \<and> buildMockAdvice_payload
       \<lparr>userProfile = JUndefined, protocol = JUndefined, doctorNotes = JString (u16 ''ok'')\<rparr> =
     Inr \<lparr> hydrationL = Fin 3.5, proteinG = Fin 152, phase = u16 ''Keto'',
           rules = base_rules (Fin 152) (Fin 3.5) @ [doctor_note_rule (u16 ''ok'')],
           notes = notes_text \<rparr>
   \<and> last (base_rules (Fin 152) (Fin 3.5) @ [doctor_note_rule (u16 ''ok'')]) =
       u16 ''Note from doctor plan considered: ok...''"
proof -
  have ne: "u16 ''ok'' \<noteq> []"
    by simp
  from doctor_note_ellipsis_always [OF _ payload_notes_only [OF ne]] payload_notes_only [OF ne]
  show ?thesis
    by (simp add: u16_def)
qed

end
